theory Spec2Isabelle
  imports Complex_Main
begin

section \<open>The static analyzer of tools/static\_analysis.py\<close>

text \<open>
  A shallow embedding of \<^verbatim>\<open>tools/static_analysis.py\<close>: the security scanner, the
  complexity visitor, the documentation and dependency analyzers, the file analyzer that
  combines them, and the report renderers with their severity filter.

  What the program takes from outside is a parameter of the model: reading a file
  (\<open>read_file\<close>), the parser \<^verbatim>\<open>ast.parse\<close> (\<open>parse\<close>), the standard library's
  \<^verbatim>\<open>inspect.cleandoc\<close> (\<open>cleandoc\<close>) and the clock (\<open>now\<close>). Python's \<^verbatim>\<open>int\<close> is
  \<open>int\<close>. The two \<^verbatim>\<open>float\<close> metrics (an average and a percentage) are kept as exact
  rationals; only their comparison with 50 and 70 is used. Text is a list of characters
  with code points below 256. Printing is modelled by the list of what is printed, and an
  exception by a value: the functions here are total, and a function that can raise has
  the exception in its result type.
\<close>

subsection \<open>Text\<close>

text \<open>
  \<^verbatim>\<open>str.strip()\<close> and the pattern \<^verbatim>\<open>\s\<close> use Python's white space; among the
  first 256 code points these are 9 to 13, 28 to 32, 133 and 160.
\<close>

definition is_space :: "char \<Rightarrow> bool" where
  "is_space c = (of_char c \<in> {9, 10, 11, 12, 13, 28, 29, 30, 31, 32, 133, 160 :: nat})"

definition strip :: "string \<Rightarrow> string" where
  "strip s = rev (dropWhile is_space (rev (dropWhile is_space s)))"

text \<open>\<^verbatim>\<open>s.split(d)\<close> for a one-character separator: never empty, \<^verbatim>\<open>''.split(d) == ['']\<close>.\<close>

fun split :: "char \<Rightarrow> string \<Rightarrow> string list" where
  "split d [] = [[]]"
| "split d (c # cs) =
     (if c = d then [] # split d cs
      else (case split d cs of
              [] \<Rightarrow> [[c]]
            | l # ls \<Rightarrow> (c # l) # ls))"

definition startswith :: "string \<Rightarrow> string \<Rightarrow> bool" where
  "startswith s p = (take (length p) s = p)"

text \<open>Lower case of an ASCII letter, as \<^verbatim>\<open>re.IGNORECASE\<close> compares the catalog's letters.\<close>

definition lower :: "char \<Rightarrow> char" where
  "lower c =
     (case map_of (zip ''ABCDEFGHIJKLMNOPQRSTUVWXYZ'' ''abcdefghijklmnopqrstuvwxyz'') c of
        None \<Rightarrow> c
      | Some l \<Rightarrow> l)"

subsection \<open>The regular expressions of the catalog\<close>

text \<open>
  The eight patterns of \<^verbatim>\<open>SECURITY_PATTERNS\<close> are sequences of literal characters, one
  optional literal (\<^verbatim>\<open>s?\<close>) and starred character classes (\<^verbatim>\<open>\s*\<close>, \<^verbatim>\<open>[^)]*\<close>,
  \<^verbatim>\<open>.*\<close>). \<^verbatim>\<open>re.search(pattern, line, re.IGNORECASE)\<close> is used as a truth value:
  whether some substring of the line matches.
\<close>

datatype cls = Space | AnyChar | NotChar char

datatype item = Ch char | OptCh char | Many cls

type_synonym pattern = "item list"

fun in_cls :: "cls \<Rightarrow> char \<Rightarrow> bool" where
  "in_cls Space c = is_space c"
| "in_cls AnyChar c = (c \<noteq> CHR 0x0A)"
| "in_cls (NotChar x) c = (lower c \<noteq> lower x)"

definition ch_eq :: "char \<Rightarrow> char \<Rightarrow> bool" where
  "ch_eq p c = (lower p = lower c)"

text \<open>Whether the pattern matches a prefix of the text.\<close>

fun match_here :: "pattern \<Rightarrow> string \<Rightarrow> bool" where
  "match_here [] s = True"
| "match_here (Ch p # r) [] = False"
| "match_here (Ch p # r) (c # cs) = (ch_eq p c \<and> match_here r cs)"
| "match_here (OptCh p # r) [] = match_here r []"
| "match_here (OptCh p # r) (c # cs) =
     ((ch_eq p c \<and> match_here r cs) \<or> match_here r (c # cs))"
| "match_here (Many k # r) [] = match_here r []"
| "match_here (Many k # r) (c # cs) =
     ((in_cls k c \<and> match_here (Many k # r) cs) \<or> match_here r (c # cs))"

text \<open>Whether the pattern matches at some position of the text.\<close>

fun re_search :: "pattern \<Rightarrow> string \<Rightarrow> bool" where
  "re_search p [] = match_here p []"
| "re_search p (c # cs) = (match_here p (c # cs) \<or> re_search p cs)"

definition lit :: "string \<Rightarrow> pattern" where
  "lit s = map Ch s"

definition spaces :: pattern where
  "spaces = [Many Space]"

text \<open>
  \<^verbatim>\<open>
  SECURITY_PATTERNS = [
      (r'eval\s*\(', 'Use of eval() can be dangerous'),
      (r'exec\s*\(', 'Use of exec() can be dangerous'),
      (r'subprocess\.call\s*\([^)]*shell\s*=\s*True', 'Shell=True in subprocess can be risky'),
      (r'pickle\.loads?\s*\(', 'Pickle deserialization can be unsafe'),
      (r'yaml\.load\s*\([^)]*Loader\s*=\s*yaml\.Loader', 'YAML unsafe loading'),
      (r'request\.args\.get\([^)]*\)', 'Direct use of request parameters without validation'),
      (r'sql.*%.*%', 'Possible SQL injection vulnerability'),
      (r'os\.system\s*\(', 'Use of os.system() can be dangerous')
  ]
  \<close>
\<close>

definition SECURITY_PATTERNS :: "(pattern \<times> string) list" where
  "SECURITY_PATTERNS =
    [(lit ''eval'' @ spaces @ lit ''('', ''Use of eval() can be dangerous''),
     (lit ''exec'' @ spaces @ lit ''('', ''Use of exec() can be dangerous''),
     (lit ''subprocess.call'' @ spaces @ lit ''('' @ [Many (NotChar CHR '')'')] @ lit ''shell''
        @ spaces @ lit ''='' @ spaces @ lit ''True'',
      ''Shell=True in subprocess can be risky''),
     (lit ''pickle.load'' @ [OptCh CHR ''s''] @ spaces @ lit ''('',
      ''Pickle deserialization can be unsafe''),
     (lit ''yaml.load'' @ spaces @ lit ''('' @ [Many (NotChar CHR '')'')] @ lit ''Loader''
        @ spaces @ lit ''='' @ spaces @ lit ''yaml.Loader'',
      ''YAML unsafe loading''),
     (lit ''request.args.get('' @ [Many (NotChar CHR '')'')] @ lit '')'',
      ''Direct use of request parameters without validation''),
     (lit ''sql'' @ [Many AnyChar] @ lit ''%'' @ [Many AnyChar] @ lit ''%'',
      ''Possible SQL injection vulnerability''),
     (lit ''os.system'' @ spaces @ lit ''('', ''Use of os.system() can be dangerous'')]"

subsection \<open>Issues\<close>

text \<open>
  An issue is a dictionary; the keys \<^verbatim>\<open>severity\<close>, \<^verbatim>\<open>line\<close>, \<^verbatim>\<open>threshold\<close> and
  \<^verbatim>\<open>code\<close> are absent from some issues. A message is a fixed text or a template of an
  f-string with the value it shows.
\<close>

datatype message =
    Text string
  | HighCyclomaticComplexity int
  | DeepNesting int
  | LongFunctions rat
  | LowFunctionDoc rat
  | LowClassDoc rat
  | CannotReadFile string

record issue =
  type :: string
  severity :: "string option"
  message :: message
  line :: "int option"
  threshold :: "int option"
  code :: "string option"

subsection \<open>SecurityAnalyzer\<close>

definition security_issue :: "int \<Rightarrow> string \<Rightarrow> string \<Rightarrow> issue" where
  "security_issue i msg txt =
     \<lparr>type = ''security'', severity = Some ''high'', message = Text msg,
      line = Some i, threshold = None, code = Some (strip txt)\<rparr>"

text \<open>The inner loop, over the catalog, and the outer loop, over the numbered lines.\<close>

fun scan_rules :: "(pattern \<times> string) list \<Rightarrow> int \<Rightarrow> string \<Rightarrow> issue list \<Rightarrow> issue list" where
  "scan_rules [] i txt issues = issues"
| "scan_rules ((p, msg) # rs) i txt issues =
     scan_rules rs i txt
       (if re_search p txt then issues @ [security_issue i msg txt] else issues)"

fun scan_lines :: "int \<Rightarrow> string list \<Rightarrow> issue list \<Rightarrow> issue list" where
  "scan_lines i [] issues = issues"
| "scan_lines i (txt # txts) issues =
     scan_lines (i + 1) txts (scan_rules SECURITY_PATTERNS i txt issues)"

definition security_analyze_file :: "string \<Rightarrow> string \<Rightarrow> issue list" where
  "security_analyze_file file_path content =
     scan_lines 1 (split CHR 0x0A content) []"

subsection \<open>Syntax trees\<close>

text \<open>
  The tree that \<^verbatim>\<open>ast.parse\<close> returns. A node has its class (with the attributes the
  analyzers read), \<^verbatim>\<open>lineno\<close>, \<^verbatim>\<open>end_lineno\<close> (\<open>None\<close> when absent) and its
  child nodes in the order of the class's fields: those of the fields before \<^verbatim>\<open>body\<close>
  (a function's arguments, the test of an \<^verbatim>\<open>if\<close>, the value of an expression
  statement), the \<^verbatim>\<open>body\<close>, and those of the later fields (\<^verbatim>\<open>orelse\<close>,
  \<^verbatim>\<open>handlers\<close>, \<^verbatim>\<open>finalbody\<close>, decorators). \<open>Import\<close> carries the names of its
  aliases, \<open>ImportFrom\<close> its \<^verbatim>\<open>module\<close>, \<open>Constant\<close> its value when that is a
  \<^verbatim>\<open>str\<close>. Every class the analyzers do not name is \<open>Other\<close>.
\<close>

datatype kind =
    Module | FunctionDef | AsyncFunctionDef | ClassDef
  | IfStmt | WhileStmt | ForStmt | TryStmt | ExceptHandler
  | Import "string list" | ImportFrom "string option"
  | Expr | Constant "string option" | Other

datatype node =
  Node (kind: kind) (lineno: int) (end_lineno: "int option")
       (before: "node list") (body: "node list") (after: "node list")

definition iter_child_nodes :: "node \<Rightarrow> node list" where
  "iter_child_nodes n = before n @ body n @ after n"

text \<open>\<^verbatim>\<open>ast.parse\<close> raises \<^verbatim>\<open>SyntaxError\<close> or returns the tree.\<close>

datatype parse_result = SyntaxError | Parsed node

text \<open>
  \<^verbatim>\<open>ast.walk\<close>: breadth first from the root, a queue of nodes still to yield.
\<close>

function walk :: "node list \<Rightarrow> node list" where
  "walk [] = []"
| "walk (n # todo) = n # walk (todo @ iter_child_nodes n)"
  by pat_completeness auto
termination
proof (relation "measure (\<lambda>q. sum_list (map size q))")
  show "wf (measure (\<lambda>q. sum_list (map size q)))" by simp
next
  fix n :: node and todo :: "node list"
  have "sum_list (map size (iter_child_nodes n)) < size n"
    by (cases n) (simp add: iter_child_nodes_def size_list_conv_sum_list)
  then show "(todo @ iter_child_nodes n, n # todo) \<in> measure (\<lambda>q. sum_list (map size q))"
    by simp
qed

declare walk.simps [simp del]

text \<open>
  \<^verbatim>\<open>ast.get_docstring(node)\<close>: the \<^verbatim>\<open>str\<close> constant of a first statement that is
  an expression statement, cleaned; else \<^verbatim>\<open>None\<close>.
\<close>

definition get_docstring :: "(string \<Rightarrow> string) \<Rightarrow> node \<Rightarrow> string option" where
  "get_docstring cleandoc node =
     (case body node of
        [] \<Rightarrow> None
      | first # _ \<Rightarrow>
          if kind first \<noteq> Expr then None
          else (case before first of
                  [] \<Rightarrow> None
                | v # _ \<Rightarrow>
                    (case kind v of
                       Constant (Some text) \<Rightarrow> Some (cleandoc text)
                     | _ \<Rightarrow> None)))"

text \<open>The truth value of an optional string: \<^verbatim>\<open>None\<close> and \<^verbatim>\<open>''\<close> are false.\<close>

definition truthy :: "string option \<Rightarrow> bool" where
  "truthy x = (case x of None \<Rightarrow> False | Some s \<Rightarrow> s \<noteq> [])"

subsection \<open>ComplexityAnalyzer\<close>

text \<open>The attributes of the visitor (\<^verbatim>\<open>self.complexity\<close>, ...), set by \<^verbatim>\<open>__init__\<close>.\<close>

record ComplexityAnalyzer =
  v_complexity :: int
  v_nesting_depth :: int
  v_max_nesting_depth :: int
  v_function_count :: int
  v_class_count :: int
  v_lines_of_code :: int
  v_function_lengths :: "int list"
  v_current_function_lines :: int

definition ComplexityAnalyzer_init :: ComplexityAnalyzer where
  "ComplexityAnalyzer_init =
     \<lparr>v_complexity = 0, v_nesting_depth = 0, v_max_nesting_depth = 0, v_function_count = 0,
      v_class_count = 0, v_lines_of_code = 0, v_function_lengths = [],
      v_current_function_lines = 0\<rparr>"

text \<open>
  Each \<^verbatim>\<open>visit_X\<close> method, with \<^verbatim>\<open>self.generic_visit(node)\<close> as its first argument.
\<close>

definition visit_FunctionDef ::
  "(ComplexityAnalyzer \<Rightarrow> ComplexityAnalyzer) \<Rightarrow> node \<Rightarrow> ComplexityAnalyzer \<Rightarrow> ComplexityAnalyzer" where
  "visit_FunctionDef generic_visit node self =
     (let self = self\<lparr>v_function_count := v_function_count self + 1\<rparr>;
          self = (case end_lineno node of
                    None \<Rightarrow> self
                  | Some e \<Rightarrow>
                      if e \<noteq> 0
                      then self\<lparr>v_function_lengths :=
                                 v_function_lengths self @ [e - lineno node + 1]\<rparr>
                      else self);
          self = self\<lparr>v_nesting_depth := v_nesting_depth self + 1\<rparr>;
          self = self\<lparr>v_max_nesting_depth :=
                        max (v_max_nesting_depth self) (v_nesting_depth self)\<rparr>;
          self = generic_visit self
      in self\<lparr>v_nesting_depth := v_nesting_depth self - 1\<rparr>)"

definition visit_ClassDef ::
  "(ComplexityAnalyzer \<Rightarrow> ComplexityAnalyzer) \<Rightarrow> ComplexityAnalyzer \<Rightarrow> ComplexityAnalyzer" where
  "visit_ClassDef generic_visit self =
     (let self = self\<lparr>v_class_count := v_class_count self + 1\<rparr>;
          self = self\<lparr>v_nesting_depth := v_nesting_depth self + 1\<rparr>;
          self = self\<lparr>v_max_nesting_depth :=
                        max (v_max_nesting_depth self) (v_nesting_depth self)\<rparr>;
          self = generic_visit self
      in self\<lparr>v_nesting_depth := v_nesting_depth self - 1\<rparr>)"

text \<open>\<^verbatim>\<open>visit_If\<close>, \<^verbatim>\<open>visit_While\<close>, \<^verbatim>\<open>visit_For\<close> and \<^verbatim>\<open>visit_Try\<close> have one body.\<close>

definition visit_If ::
  "(ComplexityAnalyzer \<Rightarrow> ComplexityAnalyzer) \<Rightarrow> ComplexityAnalyzer \<Rightarrow> ComplexityAnalyzer" where
  "visit_If generic_visit self =
     (let self = self\<lparr>v_complexity := v_complexity self + 1\<rparr>;
          self = self\<lparr>v_nesting_depth := v_nesting_depth self + 1\<rparr>;
          self = self\<lparr>v_max_nesting_depth :=
                        max (v_max_nesting_depth self) (v_nesting_depth self)\<rparr>;
          self = generic_visit self
      in self\<lparr>v_nesting_depth := v_nesting_depth self - 1\<rparr>)"

definition visit_ExceptHandler ::
  "(ComplexityAnalyzer \<Rightarrow> ComplexityAnalyzer) \<Rightarrow> ComplexityAnalyzer \<Rightarrow> ComplexityAnalyzer" where
  "visit_ExceptHandler generic_visit self =
     generic_visit (self\<lparr>v_complexity := v_complexity self + 1\<rparr>)"

text \<open>
  \<^verbatim>\<open>NodeVisitor.visit\<close> calls the method named after the node's class, and
  \<^verbatim>\<open>generic_visit\<close> where the visitor has none; \<^verbatim>\<open>generic_visit\<close> visits the child
  nodes in order, each visit continuing from the state the one before left.
\<close>

primrec visit :: "node \<Rightarrow> ComplexityAnalyzer \<Rightarrow> ComplexityAnalyzer" where
  "visit (Node k l e pre bdy post) self =
     (let node = Node k l e pre bdy post;
          generic_visit = fold (\<lambda>child. child) (map visit pre @ map visit bdy @ map visit post)
      in case k of
           FunctionDef \<Rightarrow> visit_FunctionDef generic_visit node self
         | AsyncFunctionDef \<Rightarrow> visit_FunctionDef generic_visit node self
         | ClassDef \<Rightarrow> visit_ClassDef generic_visit self
         | IfStmt \<Rightarrow> visit_If generic_visit self
         | WhileStmt \<Rightarrow> visit_If generic_visit self
         | ForStmt \<Rightarrow> visit_If generic_visit self
         | TryStmt \<Rightarrow> visit_If generic_visit self
         | ExceptHandler \<Rightarrow> visit_ExceptHandler generic_visit self
         | _ \<Rightarrow> generic_visit self)"

definition generic_visit :: "node \<Rightarrow> ComplexityAnalyzer \<Rightarrow> ComplexityAnalyzer" where
  "generic_visit node self = fold visit (iter_child_nodes node) self"

subsection \<open>analyze\_complexity\<close>

record ComplexityMetrics =
  cyclomatic_complexity :: int
  lines_of_code :: int
  function_count :: int
  class_count :: int
  max_nesting_depth :: int
  avg_function_length :: rat

definition code_lines :: "string \<Rightarrow> string list" where
  "code_lines content =
     filter (\<lambda>line. strip line \<noteq> [] \<and> \<not> startswith (strip line) ''#'')
       (split CHR 0x0A content)"

definition analyze_complexity ::
  "(string \<Rightarrow> string \<Rightarrow> parse_result) \<Rightarrow> string \<Rightarrow> string \<Rightarrow> ComplexityMetrics" where
  "analyze_complexity parse file_path content =
     (case parse content file_path of
        SyntaxError \<Rightarrow>
          \<lparr>cyclomatic_complexity = 0, lines_of_code = 0, function_count = 0, class_count = 0,
           max_nesting_depth = 0, avg_function_length = 0\<rparr>
      | Parsed tree \<Rightarrow>
          (let analyzer = visit tree ComplexityAnalyzer_init;
               analyzer = analyzer\<lparr>v_lines_of_code := int (length (code_lines content))\<rparr>;
               avg = (if v_function_lengths analyzer \<noteq> []
                      then of_int (sum_list (v_function_lengths analyzer))
                           / of_int (int (length (v_function_lengths analyzer)))
                      else 0)
           in \<lparr>cyclomatic_complexity = v_complexity analyzer,
               lines_of_code = v_lines_of_code analyzer,
               function_count = v_function_count analyzer,
               class_count = v_class_count analyzer,
               max_nesting_depth = v_max_nesting_depth analyzer,
               avg_function_length = avg\<rparr>))"

subsection \<open>analyze\_documentation\<close>

record DocumentationMetrics =
  function_docstring_coverage :: rat
  class_docstring_coverage :: rat
  total_functions :: int
  total_classes :: int
  documented_functions :: int
  documented_classes :: int

text \<open>The four counters of the loop over \<^verbatim>\<open>ast.walk(tree)\<close>, and one turn of the loop.\<close>

record doc_counters =
  functions_with_docstrings :: int
  c_total_functions :: int
  classes_with_docstrings :: int
  c_total_classes :: int

definition doc_node :: "(string \<Rightarrow> string) \<Rightarrow> node \<Rightarrow> doc_counters \<Rightarrow> doc_counters" where
  "doc_node cleandoc node c =
     (if kind node = FunctionDef then
        (let c = c\<lparr>c_total_functions := c_total_functions c + 1\<rparr>
         in if truthy (get_docstring cleandoc node)
            then c\<lparr>functions_with_docstrings := functions_with_docstrings c + 1\<rparr>
            else c)
      else if kind node = ClassDef then
        (let c = c\<lparr>c_total_classes := c_total_classes c + 1\<rparr>
         in if truthy (get_docstring cleandoc node)
            then c\<lparr>classes_with_docstrings := classes_with_docstrings c + 1\<rparr>
            else c)
      else c)"

definition analyze_documentation ::
  "(string \<Rightarrow> string) \<Rightarrow> (string \<Rightarrow> string \<Rightarrow> parse_result) \<Rightarrow> string \<Rightarrow> string
     \<Rightarrow> DocumentationMetrics" where
  "analyze_documentation cleandoc parse file_path content =
     (case parse content file_path of
        SyntaxError \<Rightarrow>
          \<lparr>function_docstring_coverage = 0, class_docstring_coverage = 0, total_functions = 0,
           total_classes = 0, documented_functions = 0, documented_classes = 0\<rparr>
      | Parsed tree \<Rightarrow>
          (let c = fold (doc_node cleandoc) (walk [tree])
                     \<lparr>functions_with_docstrings = 0, c_total_functions = 0,
                      classes_with_docstrings = 0, c_total_classes = 0\<rparr>;
               function_coverage =
                 (if c_total_functions c > 0
                  then of_int (functions_with_docstrings c) / of_int (c_total_functions c) * 100
                  else 0);
               class_coverage =
                 (if c_total_classes c > 0
                  then of_int (classes_with_docstrings c) / of_int (c_total_classes c) * 100
                  else 0)
           in \<lparr>function_docstring_coverage = function_coverage,
               class_docstring_coverage = class_coverage,
               total_functions = c_total_functions c,
               total_classes = c_total_classes c,
               documented_functions = functions_with_docstrings c,
               documented_classes = classes_with_docstrings c\<rparr>))"

subsection \<open>DependencyAnalyzer\<close>

text \<open>
  The attributes of one \<^verbatim>\<open>DependencyAnalyzer\<close> object: \<^verbatim>\<open>self.imports\<close>, a
  \<^verbatim>\<open>defaultdict(set)\<close> from file paths, and \<^verbatim>\<open>self.modules\<close>, a set. The model of
  \<^verbatim>\<open>analyze_file\<close> takes the object and returns it with the dictionary it returns.
\<close>

record DependencyAnalyzer =
  d_imports :: "string \<Rightarrow> string set"
  d_modules :: "string set"

definition DependencyAnalyzer_init :: DependencyAnalyzer where
  "DependencyAnalyzer_init = \<lparr>d_imports = (\<lambda>_. {}), d_modules = {}\<rparr>"

text \<open>The returned dictionary: its key \<^verbatim>\<open>imports\<close> is \<open>file_imports\<close> here.\<close>

record DependencyInfo =
  file_imports :: "string set"
  total_modules :: int

definition add_module :: "string \<Rightarrow> string \<Rightarrow> DependencyAnalyzer \<Rightarrow> DependencyAnalyzer" where
  "add_module file_path name self =
     self\<lparr>d_imports := (d_imports self)(file_path := insert name (d_imports self file_path)),
          d_modules := insert name (d_modules self)\<rparr>"

definition dep_node :: "string \<Rightarrow> node \<Rightarrow> DependencyAnalyzer \<Rightarrow> DependencyAnalyzer" where
  "dep_node file_path node self =
     (case kind node of
        Import names \<Rightarrow> fold (add_module file_path) names self
      | ImportFrom from_module \<Rightarrow>
          (case from_module of
             None \<Rightarrow> self
           | Some name \<Rightarrow> if name \<noteq> [] then add_module file_path name self else self)
      | _ \<Rightarrow> self)"

definition dependency_analyze_file ::
  "(string \<Rightarrow> string \<Rightarrow> parse_result) \<Rightarrow> DependencyAnalyzer \<Rightarrow> string \<Rightarrow> string
     \<Rightarrow> DependencyInfo \<times> DependencyAnalyzer" where
  "dependency_analyze_file parse self file_path content =
     (let self = (case parse content file_path of
                    SyntaxError \<Rightarrow> self
                  | Parsed tree \<Rightarrow> fold (dep_node file_path) (walk [tree]) self)
      in (\<lparr>file_imports = d_imports self file_path, total_modules = int (card (d_modules self))\<rparr>,
          self))"

subsection \<open>analyze\_file\<close>

record Metrics =
  complexity :: ComplexityMetrics
  documentation :: DocumentationMetrics
  dependencies :: DependencyInfo

text \<open>\<^verbatim>\<open>metrics\<close> is the empty dictionary (\<open>None\<close>) or has the three keys.\<close>

record AnalysisResult =
  file_path :: string
  issues :: "issue list"
  metrics :: "Metrics option"
  suggestions :: "string list"

text \<open>Reading a file raises an exception, with its text, or returns the content.\<close>

datatype read_result = ReadError string | Content string

definition COMPLEXITY_THRESHOLDS :: "string \<rightharpoonup> int" where
  "COMPLEXITY_THRESHOLDS =
     [''function_lines'' \<mapsto> 50, ''function_params'' \<mapsto> 7, ''class_methods'' \<mapsto> 20,
      ''nesting_depth'' \<mapsto> 4, ''cyclomatic_complexity'' \<mapsto> 10]"

text \<open>
  The lists \<^verbatim>\<open>issues\<close> and \<^verbatim>\<open>suggestions\<close> that the function builds are \<open>found\<close>
  and \<open>hints\<close> here, the argument \<^verbatim>\<open>file_path\<close> is \<open>path\<close>, and each \<^verbatim>\<open>if\<close>
  that appends to both lists returns the pair.
\<close>

definition analyze_file ::
  "(string \<Rightarrow> read_result) \<Rightarrow> (string \<Rightarrow> string \<Rightarrow> parse_result) \<Rightarrow> (string \<Rightarrow> string)
     \<Rightarrow> string \<Rightarrow> AnalysisResult" where
  "analyze_file read_file parse cleandoc path =
     (case read_file path of
        ReadError e \<Rightarrow>
          \<lparr>file_path = path,
           issues = [\<lparr>type = ''error'', severity = None, message = CannotReadFile e,
                      line = None, threshold = None, code = None\<rparr>],
           metrics = None,
           suggestions = []\<rparr>
      | Content content \<Rightarrow>
          (let found = [];
               hints = [];
               cm = analyze_complexity parse path content;
               (found, hints) =
                 (if cyclomatic_complexity cm > the (COMPLEXITY_THRESHOLDS ''cyclomatic_complexity'')
                  then (found @ [\<lparr>type = ''complexity'', severity = Some ''warning'',
                                   message = HighCyclomaticComplexity (cyclomatic_complexity cm),
                                   line = None,
                                   threshold = COMPLEXITY_THRESHOLDS ''cyclomatic_complexity'',
                                   code = None\<rparr>],
                        hints @ [''Consider breaking down complex functions into smaller ones''])
                  else (found, hints));
               (found, hints) =
                 (if max_nesting_depth cm > the (COMPLEXITY_THRESHOLDS ''nesting_depth'')
                  then (found @ [\<lparr>type = ''complexity'', severity = Some ''warning'',
                                   message = DeepNesting (max_nesting_depth cm),
                                   line = None,
                                   threshold = COMPLEXITY_THRESHOLDS ''nesting_depth'',
                                   code = None\<rparr>],
                        hints @ [''Reduce nesting depth by extracting functions or using early returns''])
                  else (found, hints));
               (found, hints) =
                 (if avg_function_length cm
                       > of_int (the (COMPLEXITY_THRESHOLDS ''function_lines''))
                  then (found @ [\<lparr>type = ''complexity'', severity = Some ''info'',
                                   message = LongFunctions (avg_function_length cm),
                                   line = None,
                                   threshold = COMPLEXITY_THRESHOLDS ''function_lines'',
                                   code = None\<rparr>],
                        hints @ [''Consider breaking long functions into smaller, focused functions''])
                  else (found, hints));
               security_issues = security_analyze_file path content;
               found = found @ security_issues;
               doc_analysis = analyze_documentation cleandoc parse path content;
               (found, hints) =
                 (if function_docstring_coverage doc_analysis < 50
                  then (found @ [\<lparr>type = ''documentation'', severity = Some ''info'',
                                   message = LowFunctionDoc (function_docstring_coverage doc_analysis),
                                   line = None, threshold = None, code = None\<rparr>],
                        hints @ [''Add docstrings to functions for better documentation''])
                  else (found, hints));
               (found, hints) =
                 (if class_docstring_coverage doc_analysis < 70
                  then (found @ [\<lparr>type = ''documentation'', severity = Some ''info'',
                                   message = LowClassDoc (class_docstring_coverage doc_analysis),
                                   line = None, threshold = None, code = None\<rparr>],
                        hints @ [''Add docstrings to classes for better documentation''])
                  else (found, hints));
               dep_analyzer = DependencyAnalyzer_init;
               dep_analysis = fst (dependency_analyze_file parse dep_analyzer path content)
           in \<lparr>file_path = path,
               issues = found,
               metrics = Some \<lparr>complexity = cm, documentation = doc_analysis,
                               dependencies = dep_analysis\<rparr>,
               suggestions = hints\<rparr>))"

text \<open>The loop of the \<^verbatim>\<open>analyze\<close> command: one result for each file, in order.\<close>

definition analyze_files ::
  "(string \<Rightarrow> read_result) \<Rightarrow> (string \<Rightarrow> string \<Rightarrow> parse_result) \<Rightarrow> (string \<Rightarrow> string)
     \<Rightarrow> string list \<Rightarrow> AnalysisResult list" where
  "analyze_files read_file parse cleandoc files_to_analyze =
     map (analyze_file read_file parse cleandoc) files_to_analyze"

subsection \<open>The severity filter of the reports\<close>

datatype error = KeyError string

definition severity_levels :: "string \<rightharpoonup> int" where
  "severity_levels = [''info'' \<mapsto> 1, ''warning'' \<mapsto> 2, ''error'' \<mapsto> 3]"

text \<open>\<^verbatim>\<open>d.get(key, default)\<close>, for a dictionary and for a key of an issue.\<close>

definition get :: "('k \<rightharpoonup> 'v) \<Rightarrow> 'k \<Rightarrow> 'v \<Rightarrow> 'v" where
  "get d k dflt = (case d k of None \<Rightarrow> dflt | Some v \<Rightarrow> v)"

definition get_key :: "'v option \<Rightarrow> 'v \<Rightarrow> 'v" where
  "get_key field dflt = (case field of None \<Rightarrow> dflt | Some v \<Rightarrow> v)"

text \<open>
  \<^verbatim>\<open>severity_levels.get(issue.get('severity', 'info'), 1)\<close> and the list comprehension
  \<^verbatim>\<open>[issue for issue in result.issues if ... >= min_level]\<close>, which the text report
  and the JSON report both use.
\<close>

definition level :: "issue \<Rightarrow> int" where
  "level issue = get severity_levels (get_key (severity issue) ''info'') 1"

definition filtered_issues :: "int \<Rightarrow> AnalysisResult \<Rightarrow> issue list" where
  "filtered_issues min_level result = filter (\<lambda>issue. level issue \<ge> min_level) (issues result)"

subsection \<open>generate\_json\_report\<close>

record metadata =
  tool :: string
  version :: string
  timestamp :: string
  min_severity :: string

record summary =
  total_files :: int
  total_issues :: int
  total_suggestions :: int

text \<open>The keys \<^verbatim>\<open>issues\<close>, \<^verbatim>\<open>metrics\<close> and \<^verbatim>\<open>suggestions\<close> of an entry of \<^verbatim>\<open>files\<close>.\<close>

record file_data =
  path :: string
  file_issues :: "issue list"
  file_metrics :: "Metrics option"
  file_suggestions :: "string list"

record report =
  report_metadata :: metadata
  report_summary :: summary
  files :: "file_data list"

definition TOOL_VERSION :: string where
  "TOOL_VERSION = ''1.0.0''"

definition TOOL_NAME :: string where
  "TOOL_NAME = ''IOE Static Analyzer''"

text \<open>\<open>now\<close> is \<^verbatim>\<open>str(datetime.now())\<close>. A missing key of \<^verbatim>\<open>severity_levels\<close> raises.\<close>

definition generate_json_report :: "string \<Rightarrow> AnalysisResult list \<Rightarrow> string \<Rightarrow> error + report" where
  "generate_json_report now results min_sev =
     (case severity_levels min_sev of
        None \<Rightarrow> Inl (KeyError min_sev)
      | Some min_level \<Rightarrow>
          Inr \<lparr>report_metadata =
                 \<lparr>tool = TOOL_NAME, version = TOOL_VERSION, timestamp = now,
                  min_severity = min_sev\<rparr>,
               report_summary =
                 \<lparr>total_files = int (length results),
                  total_issues =
                    sum_list (map (\<lambda>r. int (length (filter (\<lambda>i. level i \<ge> min_level) (issues r))))
                                results),
                  total_suggestions = sum_list (map (\<lambda>r. int (length (suggestions r))) results)\<rparr>,
               files =
                 map (\<lambda>result.
                        \<lparr>path = file_path result,
                         file_issues = filtered_issues min_level result,
                         file_metrics = metrics result,
                         file_suggestions = suggestions result\<rparr>)
                     results\<rparr>)"

subsection \<open>generate\_text\_report\<close>

text \<open>
  What the text report prints, in order: the summary table with one row for each result
  (file, number of filtered issues, complexity, lines of code, documentation coverage),
  the heading of the detailed issues with their total, a heading for each file that has
  filtered issues, a line for each of them (severity, type, line, message, style), the
  heading of the suggestions with their total, and the numbered suggestions. Banners and
  blank lines are left out, and a file is shown by its path.
\<close>

datatype out =
    SummaryTable "(string \<times> int \<times> int \<times> int \<times> rat) list"
  | DetailedIssues int
  | FileHeading string
  | IssueLine string string "int option" message string
  | Suggestions int
  | SuggestionLine int string

definition styles :: "string \<rightharpoonup> string" where
  "styles = [''info'' \<mapsto> ''cyan'', ''warning'' \<mapsto> ''yellow'', ''error'' \<mapsto> ''red'']"

text \<open>
  The loop over the issues of one file. The style is \<^verbatim>\<open>{...}[severity]\<close>: a severity
  that is no key raises \<^verbatim>\<open>KeyError\<close>, and what was printed before stays printed.
\<close>

fun print_issues :: "issue list \<Rightarrow> out list \<Rightarrow> out list \<times> error option" where
  "print_issues [] console = (console, None)"
| "print_issues (issue # rest) console =
     (let sev = get_key (severity issue) ''info''
      in case styles sev of
           None \<Rightarrow> (console, Some (KeyError sev))
         | Some style \<Rightarrow>
             print_issues rest
               (console @ [IssueLine sev (type issue) (line issue) (message issue) style]))"

fun print_files :: "int \<Rightarrow> AnalysisResult list \<Rightarrow> out list \<Rightarrow> out list \<times> error option" where
  "print_files min_level [] console = (console, None)"
| "print_files min_level (result # rest) console =
     (let shown = filtered_issues min_level result
      in if shown \<noteq> []
         then (case print_issues shown (console @ [FileHeading (file_path result)]) of
                 (console, Some e) \<Rightarrow> (console, Some e)
               | (console, None) \<Rightarrow> print_files min_level rest console)
         else print_files min_level rest console)"

text \<open>Duplicates removed, the first occurrence kept.\<close>

fun unique :: "string list \<Rightarrow> string list \<Rightarrow> string list" where
  "unique [] unique_suggestions = unique_suggestions"
| "unique (suggestion # rest) unique_suggestions =
     unique rest
       (if suggestion \<notin> set unique_suggestions then unique_suggestions @ [suggestion]
        else unique_suggestions)"

definition summary_row :: "int \<Rightarrow> AnalysisResult \<Rightarrow> string \<times> int \<times> int \<times> int \<times> rat" where
  "summary_row min_level result =
     (file_path result,
      int (length (filtered_issues min_level result)),
      (case metrics result of None \<Rightarrow> 0 | Some m \<Rightarrow> cyclomatic_complexity (complexity m)),
      (case metrics result of None \<Rightarrow> 0 | Some m \<Rightarrow> lines_of_code (complexity m)),
      (case metrics result of None \<Rightarrow> 0
       | Some m \<Rightarrow> function_docstring_coverage (documentation m)))"

definition generate_text_report :: "AnalysisResult list \<Rightarrow> string \<Rightarrow> out list \<times> error option" where
  "generate_text_report results min_sev =
     (case severity_levels min_sev of
        None \<Rightarrow> ([], Some (KeyError min_sev))
      | Some min_level \<Rightarrow>
          (let n_issues = sum_list (map (\<lambda>r. int (length (filtered_issues min_level r))) results);
               n_suggestions = sum_list (map (\<lambda>r. int (length (suggestions r))) results);
               console = [SummaryTable (map (summary_row min_level) results)];
               (console, raised) =
                 (if n_issues > 0
                  then print_files min_level results (console @ [DetailedIssues n_issues])
                  else (console, None))
           in case raised of
                Some e \<Rightarrow> (console, Some e)
              | None \<Rightarrow>
                  (if n_suggestions > 0
                   then (let unique_suggestions = unique (concat (map suggestions results)) []
                         in (console @ [Suggestions n_suggestions]
                               @ map2 SuggestionLine [1..int (length unique_suggestions)]
                                   unique_suggestions,
                             None))
                   else (console, None))))"

subsection \<open>The nodes of a tree\<close>

text \<open>The nodes of a tree, each before its children; used to count what the two walks see.\<close>

primrec nodes :: "node \<Rightarrow> node list" where
  "nodes (Node k l e pre bdy post) =
     Node k l e pre bdy post
       # concat (map nodes pre) @ concat (map nodes bdy) @ concat (map nodes post)"

subsection \<open>Example files\<close>

text \<open>
  A file with one function without a documentation string, a \<^verbatim>\<open>for\<close> loop holding two
  nested \<^verbatim>\<open>if\<close> statements, and a call of \<^verbatim>\<open>os.system\<close>:
  \<^verbatim>\<open>
  def f(xs):
      for x in xs:
          if x:
              if x > 1:
                  os.system("rm -rf /tmp/x")
  \<close>
  and the tree \<^verbatim>\<open>ast.parse\<close> gives for it. Nodes without a position (the module, the
  argument list, the \<^verbatim>\<open>Load\<close> and \<^verbatim>\<open>Store\<close> contexts, the operator) have line 0 here;
  the analyzers read the line of function definitions only.
\<close>

definition scenario_source :: string where
  "scenario_source =
     ''def f(xs):\<newline>'' @
     ''    for x in xs:\<newline>'' @
     ''        if x:\<newline>'' @
     ''            if x > 1:\<newline>'' @
     ''                os.system(\"rm -rf /tmp/x\")\<newline>''"

definition ctx :: node where
  "ctx = Node Other 0 None [] [] []"

definition name_at :: "int \<Rightarrow> node" where
  "name_at l = Node Other l (Some l) [ctx] [] []"

definition scenario_call :: node where
  "scenario_call =
     Node Expr 5 (Some 5)
       [Node Other 5 (Some 5)
          [Node Other 5 (Some 5) [name_at 5, ctx] [] [],
           Node (Constant (Some ''rm -rf /tmp/x'')) 5 (Some 5) [] [] []]
          [] []]
       [] []"

definition scenario_tree :: node where
  "scenario_tree =
     Node Module 0 None []
       [Node FunctionDef 1 (Some 5)
          [Node Other 0 None [Node Other 1 (Some 1) [] [] []] [] []]
          [Node ForStmt 2 (Some 5) [name_at 2, name_at 2]
             [Node IfStmt 3 (Some 5) [name_at 3]
                [Node IfStmt 4 (Some 5)
                   [Node Other 4 (Some 4)
                      [name_at 4, ctx, Node (Constant None) 4 (Some 4) [] [] []] [] []]
                   [scenario_call]
                   []]
                []]
             []]
          []]
       []"

definition read_scenario :: "string \<Rightarrow> read_result" where
  "read_scenario p = Content scenario_source"

definition parse_scenario :: "string \<Rightarrow> string \<Rightarrow> parse_result" where
  "parse_scenario content p = (if content = scenario_source then Parsed scenario_tree else SyntaxError)"

text \<open>A file that cannot be read, and a file that does not parse.\<close>

definition read_denied :: "string \<Rightarrow> read_result" where
  "read_denied p = ReadError ''Permission denied''"


definition parse_fails :: "string \<Rightarrow> string \<Rightarrow> parse_result" where
  "parse_fails content p = SyntaxError"

text \<open>
  Two files, \<^verbatim>\<open>a.py\<close> with \<^verbatim>\<open>import os\<close> and \<^verbatim>\<open>b.py\<close> with \<^verbatim>\<open>import sys\<close>.
\<close>

definition import_tree :: "string \<Rightarrow> node" where
  "import_tree name =
     Node Module 0 None [] [Node (Import [name]) 1 (Some 1) [Node Other 1 (Some 1) [] [] []] [] []] []"

definition read_two :: "string \<Rightarrow> read_result" where
  "read_two p = (if p = ''a.py'' then Content ''import os'' else Content ''import sys'')"

definition parse_two :: "string \<Rightarrow> string \<Rightarrow> parse_result" where
  "parse_two content p =
     (if content = ''import os'' then Parsed (import_tree ''os'') else Parsed (import_tree ''sys''))"

text \<open>
  A file whose only definition is \<^verbatim>\<open>async def g(): pass\<close>.
\<close>

definition async_tree :: node where
  "async_tree =
     Node Module 0 None []
       [Node AsyncFunctionDef 1 (Some 1)
          [Node Other 0 None [] [] []]
          [Node Other 1 (Some 1) [] [] []]
          []]
       []"

definition read_async :: "string \<Rightarrow> read_result" where
  "read_async p = Content ''async def g(): pass''"

definition parse_async :: "string \<Rightarrow> string \<Rightarrow> parse_result" where
  "parse_async content p = Parsed async_tree"

text \<open>A result with one issue of each of the three severities.\<close>

definition three_issues :: AnalysisResult where
  "three_issues =
     \<lparr>file_path = ''m.py'',
      issues =
        [\<lparr>type = ''documentation'', severity = Some ''info'', message = LowClassDoc 0,
          line = None, threshold = None, code = None\<rparr>,
         \<lparr>type = ''complexity'', severity = Some ''warning'', message = DeepNesting 5,
          line = None, threshold = Some 4, code = None\<rparr>,
         \<lparr>type = ''lint'', severity = Some ''error'', message = Text ''broken'',
          line = Some 3, threshold = None, code = None\<rparr>],
      metrics = None,
      suggestions = [''Add docstrings to classes for better documentation'']\<rparr>"

section \<open>Properties\<close>

subsection \<open>The complexity visitor and the two walks\<close>

text \<open>
  The state transformers that \<open>visit\<close> chains are the visits of the child nodes, in order
  (\<open>generic_visit\<close>); an \<^verbatim>\<open>async def\<close> is visited as a \<^verbatim>\<open>def\<close>; and the two walks, depth
  first and breadth first, see the same nodes.
\<close>

lemma visit_children:
  "fold (\<lambda>child. child) (map visit pre @ map visit bdy @ map visit post) s =
     generic_visit (Node k l e pre bdy post) s"
  by (simp add: generic_visit_def iter_child_nodes_def fold_map comp_def)

lemma visit_async_like_def:
  "visit (Node AsyncFunctionDef l e pre bdy post) s = visit (Node FunctionDef l e pre bdy post) s"
  by (cases e) (simp_all add: visit_FunctionDef_def Let_def)

lemma nodes_children: "nodes n = n # concat (map nodes (iter_child_nodes n))"
  by (cases n) (simp add: iter_child_nodes_def)

lemma walk_counts:
  "length (filter P (walk q)) = length (filter P (concat (map nodes q)))"
proof (induction q rule: walk.induct)
  case 1
  then show ?case by (simp add: walk.simps)
next
  case (2 n todo)
  then show ?case
    by (simp add: walk.simps nodes_children[of n])
qed

lemma fold_visits_function_count:
  assumes "\<And>x s. x \<in> set xs \<Longrightarrow>
             v_function_count (visit x s) =
               v_function_count s
                 + int (length (filter (\<lambda>n. kind n = FunctionDef \<or> kind n = AsyncFunctionDef)
                                  (nodes x)))"
  shows "v_function_count (fold (\<lambda>child. child) (map visit xs) s) =
           v_function_count s
             + int (length (filter (\<lambda>n. kind n = FunctionDef \<or> kind n = AsyncFunctionDef)
                              (concat (map nodes xs))))"
  using assms by (induction xs arbitrary: s) simp_all

lemma visit_function_count:
  "v_function_count (visit t s) =
     v_function_count s
       + int (length (filter (\<lambda>n. kind n = FunctionDef \<or> kind n = AsyncFunctionDef) (nodes t)))"
proof (induction t arbitrary: s)
  case (Node k l e pre bdy post)
  have Gpre: "v_function_count (fold (\<lambda>child. child) (map visit pre) s') =
           v_function_count s'
             + int (length (filter (\<lambda>n. kind n = FunctionDef \<or> kind n = AsyncFunctionDef)
                              (concat (map nodes pre))))" for s'
    by (rule fold_visits_function_count) (rule Node.IH(1))
  have Gbdy: "v_function_count (fold (\<lambda>child. child) (map visit bdy) s') =
           v_function_count s'
             + int (length (filter (\<lambda>n. kind n = FunctionDef \<or> kind n = AsyncFunctionDef)
                              (concat (map nodes bdy))))" for s'
    by (rule fold_visits_function_count) (rule Node.IH(2))
  have Gpost: "v_function_count (fold (\<lambda>child. child) (map visit post) s') =
           v_function_count s'
             + int (length (filter (\<lambda>n. kind n = FunctionDef \<or> kind n = AsyncFunctionDef)
                              (concat (map nodes post))))" for s'
    by (rule fold_visits_function_count) (rule Node.IH(3))
  show ?case
    by (cases k)
       (simp_all add: Gpre Gbdy Gpost visit_FunctionDef_def visit_ClassDef_def visit_If_def
          visit_ExceptHandler_def Let_def split: option.splits)
qed

lemma fold_doc_node_total_functions:
  "c_total_functions (fold (doc_node cleandoc) ns c) =
     c_total_functions c + int (length (filter (\<lambda>n. kind n = FunctionDef) ns))"
  by (induction ns arbitrary: c) (auto simp: doc_node_def Let_def)

subsection \<open>The security scanner\<close>

lemma scan_rules_append:
  "scan_rules rs i txt acc =
     acc @ map (\<lambda>(p, msg). security_issue i msg txt) (filter (\<lambda>(p, msg). re_search p txt) rs)"
  by (induction rs arbitrary: acc) auto

lemma scan_lines_append:
  "scan_lines i txts acc =
     acc @ concat (map (\<lambda>(j, txt). map (\<lambda>(p, msg). security_issue j msg txt)
                                    (filter (\<lambda>(p, msg). re_search p txt) SECURITY_PATTERNS))
                       (zip [i..i + int (length txts) - 1] txts))"
proof (induction txts arbitrary: i acc)
  case Nil
  then show ?case by simp
next
  case (Cons t ts)
  have up: "[i..i + int (length (t # ts)) - 1] = i # [i + 1..(i + 1) + int (length ts) - 1]"
    by (subst upto_rec1) simp_all
  show ?case
    unfolding up by (simp add: Cons.IH scan_rules_append)
qed

lemma security_analyze_file_severity:
  "x \<in> set (security_analyze_file fp content) \<Longrightarrow> severity x = Some ''high'' \<and> type x = ''security''"
  by (auto simp: security_analyze_file_def scan_lines_append security_issue_def dest!: set_zip_rightD)

lemma not_security_issue:
  "type x \<noteq> ''security'' \<Longrightarrow> x \<notin> set (security_analyze_file fp content)"
  using security_analyze_file_severity by blast

lemma map_const_replicate: "(\<And>x. x \<in> set xs \<Longrightarrow> f x = c) \<Longrightarrow> map f xs = replicate (length xs) c"
  by (induction xs) auto

text \<open>
  Claim C7. The security scanner splits the text at line feeds and numbers the lines from
  1; for each line, in order, and each rule of the catalog, in order, it emits one issue
  exactly when the rule's pattern is found in the line, ignoring case. Every issue has
  severity \<open>high\<close>; nothing is deduplicated, so a line that two rules match gives two
  issues; and the scan is lexical: \<^verbatim>\<open>eval(\<close> inside a string literal or after
  \<^verbatim>\<open>#\<close> is reported like any other occurrence.
\<close>

theorem security_scan_every_rule_every_line:
  "security_analyze_file fp content =
     concat (map (\<lambda>(i, txt). map (\<lambda>(p, msg). security_issue i msg txt)
                                (filter (\<lambda>(p, msg). re_search p txt) SECURITY_PATTERNS))
                 (zip [1..int (length (split CHR 0x0A content))] (split CHR 0x0A content)))
   \<and> map severity (security_analyze_file fp content) =
       replicate (length (security_analyze_file fp content)) (Some ''high'')
   \<and> security_analyze_file fp ''a = 1\<newline>x = \"eval(x)\"'' =
       [\<lparr>type = ''security'', severity = Some ''high'',
         message = Text ''Use of eval() can be dangerous'', line = Some 2, threshold = None,
         code = Some ''x = \"eval(x)\"''\<rparr>]
   \<and> security_analyze_file fp ''  # EVAL (exec(y))  '' =
       [\<lparr>type = ''security'', severity = Some ''high'',
         message = Text ''Use of eval() can be dangerous'', line = Some 1, threshold = None,
         code = Some ''# EVAL (exec(y))''\<rparr>,
        \<lparr>type = ''security'', severity = Some ''high'',
         message = Text ''Use of exec() can be dangerous'', line = Some 1, threshold = None,
         code = Some ''# EVAL (exec(y))''\<rparr>]"
proof (intro conjI)
  show "security_analyze_file fp content =
     concat (map (\<lambda>(i, txt). map (\<lambda>(p, msg). security_issue i msg txt)
                                (filter (\<lambda>(p, msg). re_search p txt) SECURITY_PATTERNS))
                 (zip [1..int (length (split CHR 0x0A content))] (split CHR 0x0A content)))"
    by (simp add: security_analyze_file_def scan_lines_append)
  show "map severity (security_analyze_file fp content) =
       replicate (length (security_analyze_file fp content)) (Some ''high'')"
    by (rule map_const_replicate) (simp add: security_analyze_file_severity)
  show "security_analyze_file fp ''a = 1\<newline>x = \"eval(x)\"'' =
       [\<lparr>type = ''security'', severity = Some ''high'',
         message = Text ''Use of eval() can be dangerous'', line = Some 2, threshold = None,
         code = Some ''x = \"eval(x)\"''\<rparr>]"
    by code_simp
  show "security_analyze_file fp ''  # EVAL (exec(y))  '' =
       [\<lparr>type = ''security'', severity = Some ''high'',
         message = Text ''Use of eval() can be dangerous'', line = Some 1, threshold = None,
         code = Some ''# EVAL (exec(y))''\<rparr>,
        \<lparr>type = ''security'', severity = Some ''high'',
         message = Text ''Use of exec() can be dangerous'', line = Some 1, threshold = None,
         code = Some ''# EVAL (exec(y))''\<rparr>]"
    by code_simp
qed

subsection \<open>The severity filter\<close>

lemma level_unranked:
  "severity i \<notin> {Some ''info'', Some ''warning'', Some ''error''} \<Longrightarrow> level i = 1"
  by (cases "severity i") (auto simp: level_def get_def get_key_def severity_levels_def)

lemma level_cases:
  "level i = (if severity i = Some ''warning'' then 2 else if severity i = Some ''error'' then 3 else 1)"
  by (cases "severity i") (auto simp: level_def get_def get_key_def severity_levels_def)

lemma level_ge_2: "(2 \<le> level i) = (severity i = Some ''warning'' \<or> severity i = Some ''error'')"
  by (simp add: level_cases)

lemma length_filter_disj:
  "(\<And>x. \<not> (A x \<and> B x)) \<Longrightarrow>
   length (filter (\<lambda>x. A x \<or> B x) xs) = length (filter A xs) + length (filter B xs)"
  by (induction xs) auto

lemma print_files_cong:
  "map (filtered_issues l) rs = map (filtered_issues l) rs' \<Longrightarrow> map file_path rs = map file_path rs'
    \<Longrightarrow> print_files l rs con = print_files l rs' con"
proof (induction rs arbitrary: rs' con)
  case Nil
  then show ?case by simp
next
  case (Cons r rs)
  then obtain r' rs'' where rs': "rs' = r' # rs''" by (cases rs') auto
  with Cons.prems have h: "filtered_issues l r = filtered_issues l r'" "file_path r = file_path r'"
    "map (filtered_issues l) rs = map (filtered_issues l) rs''" "map file_path rs = map file_path rs''"
    by auto
  show ?case
    unfolding rs' using Cons.IH[OF h(3) h(4)] h(1) h(2)
    by (simp add: Let_def split: prod.splits option.splits)
qed

lemma filtered_issues_drop:
  assumes "2 \<le> l"
  shows "filtered_issues l
           (r\<lparr>issues := filter (\<lambda>i. severity i = Some ''info'' \<or> severity i = Some ''warning''
                                      \<or> severity i = Some ''error'')
                             (issues r)\<rparr>) =
         filtered_issues l r"
proof -
  have "level i \<ge> l \<Longrightarrow> severity i = Some ''info'' \<or> severity i = Some ''warning''
                                      \<or> severity i = Some ''error''" for i
    using assms by (auto simp: level_cases split: if_splits)
  then show ?thesis
    by (auto simp: filtered_issues_def intro: filter_cong)
qed

lemma print_issues_no_error:
  "(\<And>i. i \<in> set xs \<Longrightarrow> severity i \<in> {None, Some ''info'', Some ''warning'', Some ''error''})
     \<Longrightarrow> snd (print_issues xs con) = None"
proof (induction xs arbitrary: con)
  case Nil
  then show ?case by simp
next
  case (Cons x xs)
  have "severity x \<in> {None, Some ''info'', Some ''warning'', Some ''error''}"
    using Cons.prems by simp
  then have "styles (get_key (severity x) ''info'') \<noteq> None"
    by (auto simp: styles_def get_key_def)
  then show ?case
    using Cons.IH Cons.prems by (auto simp: Let_def)
qed

lemma print_files_no_error:
  assumes "2 \<le> l"
  shows "snd (print_files l rs con) = None"
proof (induction rs arbitrary: con)
  case Nil
  then show ?case by simp
next
  case (Cons r rs)
  have ok: "snd (print_issues (filtered_issues l r) c) = None" for c
    using assms
    by (intro print_issues_no_error) (auto simp: filtered_issues_def level_cases split: if_splits)
  show ?case
  proof (cases "filtered_issues l r = []")
    case True
    then show ?thesis using Cons.IH by simp
  next
    case False
    obtain c' e where pe: "print_issues (filtered_issues l r) (con @ [FileHeading (file_path r)]) = (c', e)"
      by (cases "print_issues (filtered_issues l r) (con @ [FileHeading (file_path r)])")
    with ok[of "con @ [FileHeading (file_path r)]"] have "e = None" by simp
    with pe False show ?thesis using Cons.IH by simp
  qed
qed

text \<open>
  Claim C9. In the severity filter that the text report and the JSON report share, an
  issue without a \<^verbatim>\<open>severity\<close> key, or with a severity other than \<open>info\<close>,
  \<open>warning\<close> and \<open>error\<close> (so also \<open>high\<close>), has level 1, the lowest. When the
  minimum severity is \<open>warning\<close> or \<open>error\<close>, both reports are therefore the reports
  of the same results without these issues: they are neither shown nor counted. At
  these two thresholds the text report ends without an exception.
\<close>

theorem unranked_severity_lowest_and_hidden:
  "(severity i \<notin> {Some ''info'', Some ''warning'', Some ''error''} \<longrightarrow> level i = 1)
   \<and> (m \<in> {''warning'', ''error''} \<longrightarrow>
        generate_json_report now results m =
          generate_json_report now
            (map (\<lambda>r. r\<lparr>issues :=
                          filter (\<lambda>j. severity j \<in> {Some ''info'', Some ''warning'', Some ''error''})
                            (issues r)\<rparr>) results) m
        \<and> generate_text_report results m =
            generate_text_report
              (map (\<lambda>r. r\<lparr>issues :=
                            filter (\<lambda>j. severity j \<in> {Some ''info'', Some ''warning'', Some ''error''})
                              (issues r)\<rparr>) results) m
        \<and> snd (generate_text_report results m) = None)"
proof (intro conjI impI)
  assume "severity i \<notin> {Some ''info'', Some ''warning'', Some ''error''}"
  then show "level i = 1" by (rule level_unranked)
next
  let ?D = "\<lambda>r::AnalysisResult. r\<lparr>issues :=
                     filter (\<lambda>j. severity j = Some ''info'' \<or> severity j = Some ''warning''
                                  \<or> severity j = Some ''error'')
                       (issues r)\<rparr>"
  assume m: "m \<in> {''warning'', ''error''}"
  then obtain l where l: "severity_levels m = Some l" "2 \<le> l"
    by (auto simp: severity_levels_def)
  have fi: "filtered_issues l (?D r) = filtered_issues l r" for r
    using l(2) by (rule filtered_issues_drop)
  have fi': "filter (\<lambda>i. l \<le> level i)
               (filter (\<lambda>j. severity j = Some ''info'' \<or> severity j = Some ''warning''
                             \<or> severity j = Some ''error'') (issues r)) =
             filter (\<lambda>i. l \<le> level i) (issues r)" for r :: AnalysisResult
    using fi[of r] by (simp add: filtered_issues_def del: filter_filter)
  have js: "generate_json_report now results m = generate_json_report now (map ?D results) m"
    by (simp add: generate_json_report_def l(1) comp_def fi fi' del: filter_filter)
  then show "generate_json_report now results m =
          generate_json_report now
            (map (\<lambda>r. r\<lparr>issues :=
                          filter (\<lambda>j. severity j \<in> {Some ''info'', Some ''warning'', Some ''error''})
                            (issues r)\<rparr>) results) m"
    by simp
  have pf: "print_files l (map ?D results) c = print_files l results c" for c
    by (rule print_files_cong) (simp_all add: fi comp_def)
  have sr: "summary_row l (?D r) = summary_row l r" for r
    by (simp add: summary_row_def fi)
  have tx: "generate_text_report results m = generate_text_report (map ?D results) m"
    by (simp add: generate_text_report_def l(1) comp_def pf sr fi Let_def)
  then show "generate_text_report results m =
            generate_text_report
              (map (\<lambda>r. r\<lparr>issues :=
                            filter (\<lambda>j. severity j \<in> {Some ''info'', Some ''warning'', Some ''error''})
                              (issues r)\<rparr>) results) m"
    by simp
  have "print_files l results c \<noteq> (c', Some e)" for c c' e
    using print_files_no_error[OF l(2), of results c] by auto
  then show "snd (generate_text_report results m) = None"
    by (auto simp: generate_text_report_def l(1) Let_def split: prod.splits option.splits if_splits)
qed

text \<open>
  The security issue of the example file at the threshold \<open>warning\<close>.
\<close>

theorem unranked_severity_lowest_and_hidden_witness:
  "severity (security_issue 5 ''Use of os.system() can be dangerous'' ''os.system(x)'')
     \<notin> {Some ''info'', Some ''warning'', Some ''error''}
   \<and> level (security_issue 5 ''Use of os.system() can be dangerous'' ''os.system(x)'') = 1
   \<and> ''warning'' \<in> {''warning'', ''error''}
   \<and> generate_json_report ''t'' [analyze_file read_scenario parse_scenario id ''s.py''] ''warning'' =
       generate_json_report ''t''
         (map (\<lambda>r. r\<lparr>issues :=
                       filter (\<lambda>j. severity j \<in> {Some ''info'', Some ''warning'', Some ''error''})
                         (issues r)\<rparr>) [analyze_file read_scenario parse_scenario id ''s.py''])
         ''warning''
   \<and> snd (generate_text_report [analyze_file read_scenario parse_scenario id ''s.py''] ''warning'')
       = None"
proof -
  have a: "severity (security_issue 5 ''Use of os.system() can be dangerous'' ''os.system(x)'')
             \<notin> {Some ''info'', Some ''warning'', Some ''error''}"
    by (simp add: security_issue_def)
  have b: "''warning'' \<in> {''warning'', ''error''}"
    by simp
  note t = unranked_severity_lowest_and_hidden
             [where i = "security_issue 5 ''Use of os.system() can be dangerous'' ''os.system(x)''"
                and m = "''warning''" and now = "''t''"
                and results = "[analyze_file read_scenario parse_scenario id ''s.py'']"]
  show ?thesis
    using a b t by blast
qed

text \<open>
  Claim C6. For a file with exactly one \<open>info\<close>, one \<open>warning\<close> and one \<open>error\<close>
  issue, the JSON report at minimum severity \<open>warning\<close> shows and counts exactly the two
  issues of severity \<open>warning\<close> and \<open>error\<close>, not the \<open>info\<close> issue. For every list
  of results and each of the three thresholds, the paths, metrics and suggestions of the
  report's files and the number of suggestions are those of the results.
\<close>

theorem min_severity_warning_keeps_metrics_and_suggestions:
  assumes "length (filter (\<lambda>i. severity i = Some ''info'') (issues r)) = 1"
    and "length (filter (\<lambda>i. severity i = Some ''warning'') (issues r)) = 1"
    and "length (filter (\<lambda>i. severity i = Some ''error'') (issues r)) = 1"
    and "m \<in> {''info'', ''warning'', ''error''}"
  shows "generate_json_report now [r] ''warning'' =
           Inr \<lparr>report_metadata =
                  \<lparr>tool = TOOL_NAME, version = TOOL_VERSION, timestamp = now,
                   min_severity = ''warning''\<rparr>,
                report_summary =
                  \<lparr>total_files = 1, total_issues = 2,
                   total_suggestions = int (length (suggestions r))\<rparr>,
                files =
                  [\<lparr>path = file_path r,
                    file_issues =
                      filter (\<lambda>i. severity i = Some ''warning'' \<or> severity i = Some ''error'')
                        (issues r),
                    file_metrics = metrics r,
                    file_suggestions = suggestions r\<rparr>]\<rparr>
       \<and> length (filter (\<lambda>i. severity i = Some ''warning'' \<or> severity i = Some ''error'')
                   (issues r)) = 2
       \<and> map_sum id (\<lambda>rep. (map path (files rep), map file_metrics (files rep),
                            map file_suggestions (files rep),
                            total_suggestions (report_summary rep)))
            (generate_json_report now results m) =
           Inr (map file_path results, map metrics results, map suggestions results,
                sum_list (map (\<lambda>r. int (length (suggestions r))) results))"
proof (intro conjI)
  have two: "length (filter (\<lambda>i. severity i = Some ''warning'' \<or> severity i = Some ''error'')
                   (issues r)) = 2"
    using assms(2,3) by (subst length_filter_disj) auto
  then show "length (filter (\<lambda>i. severity i = Some ''warning'' \<or> severity i = Some ''error'')
                   (issues r)) = 2" .
  show "generate_json_report now [r] ''warning'' =
           Inr \<lparr>report_metadata =
                  \<lparr>tool = TOOL_NAME, version = TOOL_VERSION, timestamp = now,
                   min_severity = ''warning''\<rparr>,
                report_summary =
                  \<lparr>total_files = 1, total_issues = 2,
                   total_suggestions = int (length (suggestions r))\<rparr>,
                files =
                  [\<lparr>path = file_path r,
                    file_issues =
                      filter (\<lambda>i. severity i = Some ''warning'' \<or> severity i = Some ''error'')
                        (issues r),
                    file_metrics = metrics r,
                    file_suggestions = suggestions r\<rparr>]\<rparr>"
    using two
    by (simp add: generate_json_report_def severity_levels_def filtered_issues_def level_ge_2)
  from assms(4) obtain l where "severity_levels m = Some l"
    by (auto simp: severity_levels_def)
  then show "map_sum id (\<lambda>rep. (map path (files rep), map file_metrics (files rep),
                            map file_suggestions (files rep),
                            total_suggestions (report_summary rep)))
            (generate_json_report now results m) =
           Inr (map file_path results, map metrics results, map suggestions results,
                sum_list (map (\<lambda>r. int (length (suggestions r))) results))"
    by (simp add: generate_json_report_def comp_def)
qed

theorem min_severity_warning_keeps_metrics_and_suggestions_witness:
  "length (filter (\<lambda>i. severity i = Some ''info'') (issues three_issues)) = 1
   \<and> length (filter (\<lambda>i. severity i = Some ''warning'') (issues three_issues)) = 1
   \<and> length (filter (\<lambda>i. severity i = Some ''error'') (issues three_issues)) = 1
   \<and> ''error'' \<in> {''info'', ''warning'', ''error''}
   \<and> map_sum id (\<lambda>rep. (total_issues (report_summary rep), map file_issues (files rep)))
        (generate_json_report ''t'' [three_issues] ''warning'') =
       Inr (2, [[\<lparr>type = ''complexity'', severity = Some ''warning'', message = DeepNesting 5,
                  line = None, threshold = Some 4, code = None\<rparr>,
                 \<lparr>type = ''lint'', severity = Some ''error'', message = Text ''broken'',
                  line = Some 3, threshold = None, code = None\<rparr>]])
   \<and> map_sum id (\<lambda>rep. (map path (files rep), map file_metrics (files rep),
                        map file_suggestions (files rep),
                        total_suggestions (report_summary rep)))
        (generate_json_report ''t'' [three_issues] ''error'') =
       Inr ([''m.py''], [None], [[''Add docstrings to classes for better documentation'']], 1)"
proof -
  have a: "length (filter (\<lambda>i. severity i = Some ''info'') (issues three_issues)) = 1"
    by (simp add: three_issues_def)
  have b: "length (filter (\<lambda>i. severity i = Some ''warning'') (issues three_issues)) = 1"
    by (simp add: three_issues_def)
  have c: "length (filter (\<lambda>i. severity i = Some ''error'') (issues three_issues)) = 1"
    by (simp add: three_issues_def)
  have d: "''error'' \<in> {''info'', ''warning'', ''error''}"
    by simp
  note t = min_severity_warning_keeps_metrics_and_suggestions
             [where r = three_issues and m = "''error''" and now = "''t''"
                and results = "[three_issues]", OF a b c d]
  show ?thesis
    using a b c t by (simp add: three_issues_def)
qed

subsection \<open>The file analyzer\<close>

lemma analyze_file_readable:
  assumes "read_file p = Content content"
  shows "issues (analyze_file read_file parse cleandoc p) =
           (if cyclomatic_complexity (analyze_complexity parse p content) > 10
            then [\<lparr>type = ''complexity'', severity = Some ''warning'',
                   message = HighCyclomaticComplexity
                               (cyclomatic_complexity (analyze_complexity parse p content)),
                   line = None, threshold = Some 10, code = None\<rparr>]
            else [])
           @ (if max_nesting_depth (analyze_complexity parse p content) > 4
              then [\<lparr>type = ''complexity'', severity = Some ''warning'',
                     message = DeepNesting (max_nesting_depth (analyze_complexity parse p content)),
                     line = None, threshold = Some 4, code = None\<rparr>]
              else [])
           @ (if avg_function_length (analyze_complexity parse p content) > 50
              then [\<lparr>type = ''complexity'', severity = Some ''info'',
                     message = LongFunctions
                                 (avg_function_length (analyze_complexity parse p content)),
                     line = None, threshold = Some 50, code = None\<rparr>]
              else [])
           @ security_analyze_file p content
           @ (if function_docstring_coverage (analyze_documentation cleandoc parse p content) < 50
              then [\<lparr>type = ''documentation'', severity = Some ''info'',
                     message = LowFunctionDoc
                                 (function_docstring_coverage
                                    (analyze_documentation cleandoc parse p content)),
                     line = None, threshold = None, code = None\<rparr>]
              else [])
           @ (if class_docstring_coverage (analyze_documentation cleandoc parse p content) < 70
              then [\<lparr>type = ''documentation'', severity = Some ''info'',
                     message = LowClassDoc
                                 (class_docstring_coverage
                                    (analyze_documentation cleandoc parse p content)),
                     line = None, threshold = None, code = None\<rparr>]
              else [])"
    and "suggestions (analyze_file read_file parse cleandoc p) =
           (if cyclomatic_complexity (analyze_complexity parse p content) > 10
            then [''Consider breaking down complex functions into smaller ones''] else [])
           @ (if max_nesting_depth (analyze_complexity parse p content) > 4
              then [''Reduce nesting depth by extracting functions or using early returns'']
              else [])
           @ (if avg_function_length (analyze_complexity parse p content) > 50
              then [''Consider breaking long functions into smaller, focused functions'']
              else [])
           @ (if function_docstring_coverage (analyze_documentation cleandoc parse p content) < 50
              then [''Add docstrings to functions for better documentation''] else [])
           @ (if class_docstring_coverage (analyze_documentation cleandoc parse p content) < 70
              then [''Add docstrings to classes for better documentation''] else [])"
    and "metrics (analyze_file read_file parse cleandoc p) =
           Some \<lparr>complexity = analyze_complexity parse p content,
                 documentation = analyze_documentation cleandoc parse p content,
                 dependencies =
                   fst (dependency_analyze_file parse DependencyAnalyzer_init p content)\<rparr>"
  using assms
  by (simp_all add: analyze_file_def COMPLEXITY_THRESHOLDS_def Let_def)

text \<open>
  Claim C8. For a file that can be read, \<open>analyze_file\<close> emits the warning issue for
  cyclomatic complexity, and its suggestion, exactly when the complexity is above 10; the
  warning issue for nesting, and its suggestion, exactly when the greatest nesting depth
  is above 4; the info issue for long functions, and its suggestion, exactly when the
  average function length is above 50; and the two info issues for documentation, each
  with its suggestion, exactly when the function coverage is below 50 and when the class
  coverage is below 70. Besides these the issues are those of the security scanner, which
  adds no suggestion.
\<close>

theorem thresholds_decide_issues_and_suggestions:
  assumes "read_file p = Content content"
  shows "let cm = analyze_complexity parse p content;
             doc = analyze_documentation cleandoc parse p content;
             r = analyze_file read_file parse cleandoc p
         in ((\<lparr>type = ''complexity'', severity = Some ''warning'',
                message = HighCyclomaticComplexity (cyclomatic_complexity cm),
                line = None, threshold = Some 10, code = None\<rparr> \<in> set (issues r))
               = (cyclomatic_complexity cm > 10))
          \<and> ((''Consider breaking down complex functions into smaller ones'' \<in> set (suggestions r))
               = (cyclomatic_complexity cm > 10))
          \<and> ((\<lparr>type = ''complexity'', severity = Some ''warning'',
                message = DeepNesting (max_nesting_depth cm),
                line = None, threshold = Some 4, code = None\<rparr> \<in> set (issues r))
               = (max_nesting_depth cm > 4))
          \<and> ((''Reduce nesting depth by extracting functions or using early returns''
                  \<in> set (suggestions r))
               = (max_nesting_depth cm > 4))
          \<and> ((\<lparr>type = ''complexity'', severity = Some ''info'',
                message = LongFunctions (avg_function_length cm),
                line = None, threshold = Some 50, code = None\<rparr> \<in> set (issues r))
               = (avg_function_length cm > 50))
          \<and> ((''Consider breaking long functions into smaller, focused functions''
                  \<in> set (suggestions r))
               = (avg_function_length cm > 50))
          \<and> ((\<lparr>type = ''documentation'', severity = Some ''info'',
                message = LowFunctionDoc (function_docstring_coverage doc),
                line = None, threshold = None, code = None\<rparr> \<in> set (issues r))
               = (function_docstring_coverage doc < 50))
          \<and> ((''Add docstrings to functions for better documentation'' \<in> set (suggestions r))
               = (function_docstring_coverage doc < 50))
          \<and> ((\<lparr>type = ''documentation'', severity = Some ''info'',
                message = LowClassDoc (class_docstring_coverage doc),
                line = None, threshold = None, code = None\<rparr> \<in> set (issues r))
               = (class_docstring_coverage doc < 70))
          \<and> ((''Add docstrings to classes for better documentation'' \<in> set (suggestions r))
               = (class_docstring_coverage doc < 70))
          \<and> length (issues r) =
               length (filter (\<lambda>b. b)
                 [cyclomatic_complexity cm > 10, max_nesting_depth cm > 4,
                  avg_function_length cm > 50, function_docstring_coverage doc < 50,
                  class_docstring_coverage doc < 70])
               + length (security_analyze_file p content)
          \<and> length (suggestions r) =
               length (filter (\<lambda>b. b)
                 [cyclomatic_complexity cm > 10, max_nesting_depth cm > 4,
                  avg_function_length cm > 50, function_docstring_coverage doc < 50,
                  class_docstring_coverage doc < 70])"
  unfolding Let_def
    analyze_file_readable(1)[where read_file = read_file and parse = parse and cleandoc = cleandoc,
      OF assms]
    analyze_file_readable(2)[where read_file = read_file and parse = parse and cleandoc = cleandoc,
      OF assms]
  by (simp add: not_security_issue)

subsection \<open>The example file\<close>

lemma scenario_visit:
  "visit scenario_tree ComplexityAnalyzer_init =
     \<lparr>v_complexity = 3, v_nesting_depth = 0, v_max_nesting_depth = 4, v_function_count = 1,
      v_class_count = 0, v_lines_of_code = 0, v_function_lengths = [5],
      v_current_function_lines = 0\<rparr>"
  by code_simp

lemma scenario_loc: "length (code_lines scenario_source) = 5"
  by code_simp

lemma scenario_scan:
  "scan_lines 1 (split CHR 0x0A scenario_source) [] =
     [\<lparr>type = ''security'', severity = Some ''high'',
       message = Text ''Use of os.system() can be dangerous'', line = Some 5, threshold = None,
       code = Some ''os.system(\"rm -rf /tmp/x\")''\<rparr>]"
  by code_simp

lemma scenario_doc:
  "fold (doc_node cleandoc) (walk [scenario_tree])
     \<lparr>functions_with_docstrings = 0, c_total_functions = 0,
      classes_with_docstrings = 0, c_total_classes = 0\<rparr> =
   \<lparr>functions_with_docstrings = 0, c_total_functions = 1,
      classes_with_docstrings = 0, c_total_classes = 0\<rparr>"
  by code_simp

lemma scenario_no_imports:
  "\<forall>n \<in> set (walk [scenario_tree]).
     (case kind n of Import xs \<Rightarrow> False | ImportFrom m \<Rightarrow> False | _ \<Rightarrow> True)"
  by code_simp

lemma dep_node_other: "(\<And>ns. kind n \<noteq> Import ns) \<Longrightarrow> (\<And>m. kind n \<noteq> ImportFrom m) \<Longrightarrow> dep_node p n s = s"
  by (cases "kind n") (auto simp: dep_node_def)

lemma fold_dep_node_other:
  "(\<And>n. n \<in> set ns \<Longrightarrow> (\<forall>xs. kind n \<noteq> Import xs) \<and> (\<forall>m. kind n \<noteq> ImportFrom m))
     \<Longrightarrow> fold (dep_node p) ns s = s"
  by (induction ns arbitrary: s) (auto simp: dep_node_other)

lemma scenario_dep:
  "fold (dep_node p) (walk [scenario_tree]) s = s"
proof (rule fold_dep_node_other)
  fix n assume "n \<in> set (walk [scenario_tree])"
  with scenario_no_imports
  have "case kind n of Import xs \<Rightarrow> False | ImportFrom m \<Rightarrow> False | _ \<Rightarrow> True"
    by blast
  then show "(\<forall>xs. kind n \<noteq> Import xs) \<and> (\<forall>m. kind n \<noteq> ImportFrom m)"
    by (auto split: kind.splits)
qed

lemma scenario_complexity:
  "parse scenario_source p = Parsed scenario_tree \<Longrightarrow>
   analyze_complexity parse p scenario_source =
     \<lparr>cyclomatic_complexity = 3, lines_of_code = 5, function_count = 1, class_count = 0,
      max_nesting_depth = 4, avg_function_length = 5\<rparr>"
  by (simp add: analyze_complexity_def scenario_visit scenario_loc)

lemma scenario_documentation:
  "parse scenario_source p = Parsed scenario_tree \<Longrightarrow>
   analyze_documentation cleandoc parse p scenario_source =
     \<lparr>function_docstring_coverage = 0, class_docstring_coverage = 0, total_functions = 1,
      total_classes = 0, documented_functions = 0, documented_classes = 0\<rparr>"
  by (simp add: analyze_documentation_def scenario_doc)

lemma scenario_dependencies:
  "parse scenario_source p = Parsed scenario_tree \<Longrightarrow>
   fst (dependency_analyze_file parse DependencyAnalyzer_init p scenario_source) =
     \<lparr>file_imports = {}, total_modules = 0\<rparr>"
  by (simp add: dependency_analyze_file_def scenario_dep DependencyAnalyzer_init_def Let_def)

lemma scenario_result:
  assumes "read_file p = Content scenario_source"
    and "parse scenario_source p = Parsed scenario_tree"
  shows "analyze_file read_file parse cleandoc p =
     \<lparr>file_path = p,
      issues =
        [\<lparr>type = ''security'', severity = Some ''high'',
          message = Text ''Use of os.system() can be dangerous'', line = Some 5,
          threshold = None, code = Some ''os.system(\"rm -rf /tmp/x\")''\<rparr>,
         \<lparr>type = ''documentation'', severity = Some ''info'', message = LowFunctionDoc 0,
          line = None, threshold = None, code = None\<rparr>,
         \<lparr>type = ''documentation'', severity = Some ''info'', message = LowClassDoc 0,
          line = None, threshold = None, code = None\<rparr>],
      metrics =
        Some \<lparr>complexity =
                \<lparr>cyclomatic_complexity = 3, lines_of_code = 5, function_count = 1,
                 class_count = 0, max_nesting_depth = 4, avg_function_length = 5\<rparr>,
              documentation =
                \<lparr>function_docstring_coverage = 0, class_docstring_coverage = 0,
                 total_functions = 1, total_classes = 0, documented_functions = 0,
                 documented_classes = 0\<rparr>,
              dependencies = \<lparr>file_imports = {}, total_modules = 0\<rparr>\<rparr>,
      suggestions =
        [''Add docstrings to functions for better documentation'',
         ''Add docstrings to classes for better documentation'']\<rparr>"
  by (simp add: analyze_file_def assms scenario_complexity scenario_documentation
      scenario_dependencies security_analyze_file_def scenario_scan COMPLEXITY_THRESHOLDS_def)

lemma scenario_example:
  "analyze_file read_scenario parse_scenario id ''s.py'' =
     \<lparr>file_path = ''s.py'',
      issues =
        [\<lparr>type = ''security'', severity = Some ''high'',
          message = Text ''Use of os.system() can be dangerous'', line = Some 5,
          threshold = None, code = Some ''os.system(\"rm -rf /tmp/x\")''\<rparr>,
         \<lparr>type = ''documentation'', severity = Some ''info'', message = LowFunctionDoc 0,
          line = None, threshold = None, code = None\<rparr>,
         \<lparr>type = ''documentation'', severity = Some ''info'', message = LowClassDoc 0,
          line = None, threshold = None, code = None\<rparr>],
      metrics =
        Some \<lparr>complexity =
                \<lparr>cyclomatic_complexity = 3, lines_of_code = 5, function_count = 1,
                 class_count = 0, max_nesting_depth = 4, avg_function_length = 5\<rparr>,
              documentation =
                \<lparr>function_docstring_coverage = 0, class_docstring_coverage = 0,
                 total_functions = 1, total_classes = 0, documented_functions = 0,
                 documented_classes = 0\<rparr>,
              dependencies = \<lparr>file_imports = {}, total_modules = 0\<rparr>\<rparr>,
      suggestions =
        [''Add docstrings to functions for better documentation'',
         ''Add docstrings to classes for better documentation'']\<rparr>"
  by (rule scenario_result[where read_file=read_scenario and parse=parse_scenario]) (simp_all add: read_scenario_def parse_scenario_def)

theorem thresholds_decide_issues_and_suggestions_witness:
  "read_scenario ''s.py'' = Content scenario_source
   \<and> cyclomatic_complexity (analyze_complexity parse_scenario ''s.py'' scenario_source) = 3
   \<and> \<lparr>type = ''complexity'', severity = Some ''warning'', message = HighCyclomaticComplexity 3,
        line = None, threshold = Some 10, code = None\<rparr>
         \<notin> set (issues (analyze_file read_scenario parse_scenario id ''s.py''))
   \<and> ''Consider breaking down complex functions into smaller ones''
         \<notin> set (suggestions (analyze_file read_scenario parse_scenario id ''s.py''))
   \<and> function_docstring_coverage (analyze_documentation id parse_scenario ''s.py'' scenario_source)
       = 0
   \<and> \<lparr>type = ''documentation'', severity = Some ''info'', message = LowFunctionDoc 0,
        line = None, threshold = None, code = None\<rparr>
         \<in> set (issues (analyze_file read_scenario parse_scenario id ''s.py''))
   \<and> ''Add docstrings to functions for better documentation''
         \<in> set (suggestions (analyze_file read_scenario parse_scenario id ''s.py''))"
proof -
  have r: "read_scenario ''s.py'' = Content scenario_source"
    by (simp add: read_scenario_def)
  have q: "parse_scenario scenario_source ''s.py'' = Parsed scenario_tree"
    by (simp add: parse_scenario_def)
  note t = thresholds_decide_issues_and_suggestions
             [where read_file = read_scenario and p = "''s.py''" and content = scenario_source
                and parse = parse_scenario and cleandoc = id, OF r]
  show ?thesis
    using r t
    by (simp add: Let_def scenario_complexity[where parse = parse_scenario, OF q]
        scenario_documentation[where parse = parse_scenario, OF q])
qed

text \<open>
  Claim C2. For the example file (one function without a documentation string, a
  \<^verbatim>\<open>for\<close> loop holding two nested \<^verbatim>\<open>if\<close> statements, a line calling
  \<^verbatim>\<open>os.system\<close>), read and parsed as shown, \<open>analyze_file\<close> reports cyclomatic
  complexity 3 and exactly three issues: the security issue of line 5, the issue for
  function documentation coverage (0 below 50) and the issue for class documentation
  coverage (0 below 70, there being no class). All three pass the \<open>info\<close> threshold,
  level 1.
\<close>

theorem scenario_complexity_three_and_three_issues:
  assumes "read_file p = Content scenario_source"
    and "parse scenario_source p = Parsed scenario_tree"
  shows "map_option (cyclomatic_complexity \<circ> complexity)
           (metrics (analyze_file read_file parse cleandoc p)) = Some 3
       \<and> issues (analyze_file read_file parse cleandoc p) =
           [\<lparr>type = ''security'', severity = Some ''high'',
             message = Text ''Use of os.system() can be dangerous'', line = Some 5,
             threshold = None, code = Some ''os.system(\"rm -rf /tmp/x\")''\<rparr>,
            \<lparr>type = ''documentation'', severity = Some ''info'', message = LowFunctionDoc 0,
             line = None, threshold = None, code = None\<rparr>,
            \<lparr>type = ''documentation'', severity = Some ''info'', message = LowClassDoc 0,
             line = None, threshold = None, code = None\<rparr>]
       \<and> severity_levels ''info'' = Some 1
       \<and> filtered_issues 1 (analyze_file read_file parse cleandoc p) =
           issues (analyze_file read_file parse cleandoc p)
       \<and> length (filtered_issues 1 (analyze_file read_file parse cleandoc p)) = 3
       \<and> map_sum id (total_issues \<circ> report_summary)
            (generate_json_report now [analyze_file read_file parse cleandoc p] ''info'') = Inr 3"
  unfolding scenario_result[where read_file=read_file and parse=parse and p=p, OF assms]
  by (simp add: filtered_issues_def level_cases severity_levels_def generate_json_report_def)

theorem scenario_complexity_three_and_three_issues_witness:
  "read_scenario ''s.py'' = Content scenario_source
   \<and> parse_scenario scenario_source ''s.py'' = Parsed scenario_tree
   \<and> map_option (cyclomatic_complexity \<circ> complexity)
           (metrics (analyze_file read_scenario parse_scenario id ''s.py'')) = Some 3
   \<and> length (filtered_issues 1 (analyze_file read_scenario parse_scenario id ''s.py'')) = 3
   \<and> map_sum id (total_issues \<circ> report_summary)
        (generate_json_report ''t'' [analyze_file read_scenario parse_scenario id ''s.py''] ''info'')
       = Inr 3"
proof -
  have r: "read_scenario ''s.py'' = Content scenario_source"
    by (simp add: read_scenario_def)
  have q: "parse_scenario scenario_source ''s.py'' = Parsed scenario_tree"
    by (simp add: parse_scenario_def)
  show ?thesis
    using r q scenario_complexity_three_and_three_issues[where read_file=read_scenario and parse=parse_scenario and p="''s.py''" and cleandoc=id and now="''t''", OF r q] by simp
qed

text \<open>
  Claim C1 says that a security issue, of severity \<open>high\<close>, passes every threshold.
  The code ranks \<open>high\<close> at level 1: for the example file the security issue is in the
  result, yet at \<open>warning\<close> and at \<open>error\<close> the JSON report shows and counts no issue
  and the text report counts none; at \<open>info\<close> the text report counts three issues and then
  raises \<^verbatim>\<open>KeyError\<close> at the style of \<open>high\<close>, before it has printed one.
\<close>

theorem high_severity_dropped_by_filter:
  "map severity (issues (analyze_file read_scenario parse_scenario id ''s.py'')) =
     [Some ''high'', Some ''info'', Some ''info'']
   \<and> map level (issues (analyze_file read_scenario parse_scenario id ''s.py'')) = [1, 1, 1]
   \<and> map_sum id (\<lambda>rep. (total_issues (report_summary rep), map file_issues (files rep)))
        (generate_json_report ''t'' [analyze_file read_scenario parse_scenario id ''s.py''] ''warning'')
       = Inr (0, [[]])
   \<and> map_sum id (\<lambda>rep. (total_issues (report_summary rep), map file_issues (files rep)))
        (generate_json_report ''t'' [analyze_file read_scenario parse_scenario id ''s.py''] ''error'')
       = Inr (0, [[]])
   \<and> generate_text_report [analyze_file read_scenario parse_scenario id ''s.py''] ''warning'' =
       ([SummaryTable [(''s.py'', 0, 3, 5, 0)], Suggestions 2,
         SuggestionLine 1 ''Add docstrings to functions for better documentation'',
         SuggestionLine 2 ''Add docstrings to classes for better documentation''], None)
   \<and> generate_text_report [analyze_file read_scenario parse_scenario id ''s.py''] ''info'' =
       ([SummaryTable [(''s.py'', 3, 3, 5, 0)], DetailedIssues 3, FileHeading ''s.py''],
        Some (KeyError ''high''))"
  unfolding scenario_example
  by (simp add: generate_json_report_def generate_text_report_def severity_levels_def
      filtered_issues_def level_cases summary_row_def styles_def get_key_def upto_rec1)

subsection \<open>Files that cannot be read\<close>

text \<open>
  Claim C3 says the issue made for an unreadable file has error severity. It has the type
  \<open>error\<close> and no severity: the filter ranks it at level 1 and drops it at the \<open>error\<close>
  threshold, level 3.
\<close>

theorem unreadable_file_issue_has_no_severity:
  "map severity (issues (analyze_file read_denied parse_fails id ''x.py'')) = [None]
   \<and> map type (issues (analyze_file read_denied parse_fails id ''x.py'')) = [''error'']
   \<and> filtered_issues 3 (analyze_file read_denied parse_fails id ''x.py'') = []
   \<and> severity_levels ''error'' = Some 3"
  by (simp add: analyze_file_def read_denied_def filtered_issues_def level_cases severity_levels_def)

text \<open>
  Claim C3, amended. For every path whose file cannot be read, \<open>analyze_file\<close> returns
  a result with exactly one issue, of type \<open>error\<close>, with the text of the exception and
  no severity key (level 1 in the filter), with empty metrics and no suggestions.
\<close>

theorem unreadable_file_single_error_type_issue:
  assumes "read_file p = ReadError e"
  shows "analyze_file read_file parse cleandoc p =
           \<lparr>file_path = p,
            issues = [\<lparr>type = ''error'', severity = None, message = CannotReadFile e,
                       line = None, threshold = None, code = None\<rparr>],
            metrics = None,
            suggestions = []\<rparr>
       \<and> map level (issues (analyze_file read_file parse cleandoc p)) = [1]"
  using assms by (simp add: analyze_file_def level_cases)

theorem unreadable_file_single_error_type_issue_witness:
  "read_denied ''x.py'' = ReadError ''Permission denied''
   \<and> analyze_file read_denied parse_fails id ''x.py'' =
           \<lparr>file_path = ''x.py'',
            issues = [\<lparr>type = ''error'', severity = None,
                       message = CannotReadFile ''Permission denied'',
                       line = None, threshold = None, code = None\<rparr>],
            metrics = None,
            suggestions = []\<rparr>
   \<and> map level (issues (analyze_file read_denied parse_fails id ''x.py'')) = [1]"
proof -
  have r: "read_denied ''x.py'' = ReadError ''Permission denied''"
    by (simp add: read_denied_def)
  show ?thesis
    by (rule conjI [OF r unreadable_file_single_error_type_issue
            [where read_file = read_denied and p = "''x.py''" and parse = parse_fails
               and cleandoc = id, OF r]])
qed

subsection \<open>Files that do not parse\<close>



subsection \<open>The modules a file imports\<close>

lemma fold_add_module_modules:
  "d_modules (fold (add_module p) names s) = d_modules s \<union> set names"
  by (induction names arbitrary: s) (auto simp: add_module_def)

lemma fold_add_module_imports:
  "d_imports (fold (add_module p) names s) q =
     (if q = p then d_imports s p \<union> set names else d_imports s q)"
  by (induction names arbitrary: s) (auto simp: add_module_def)

lemma dep_node_modules:
  "d_modules (dep_node p n s) = d_modules s \<union> d_modules (dep_node p n DependencyAnalyzer_init)"
  by (cases "kind n")
     (auto simp: dep_node_def fold_add_module_modules add_module_def DependencyAnalyzer_init_def
           split: option.splits)

lemma dep_node_imports:
  "d_imports (dep_node p n s) q =
     (if q = p then d_imports s p \<union> d_modules (dep_node p n DependencyAnalyzer_init)
      else d_imports s q)"
  by (cases "kind n")
     (auto simp: dep_node_def fold_add_module_modules fold_add_module_imports add_module_def
           DependencyAnalyzer_init_def split: option.splits)

lemma fold_dep_node_modules:
  "d_modules (fold (dep_node p) ns s) =
     d_modules s \<union> d_modules (fold (dep_node p) ns DependencyAnalyzer_init)"
proof (induction ns arbitrary: s)
  case Nil
  then show ?case by (simp add: DependencyAnalyzer_init_def)
next
  case (Cons n ns)
  have "d_modules (fold (dep_node p) (n # ns) s) =
          d_modules (dep_node p n s) \<union> d_modules (fold (dep_node p) ns DependencyAnalyzer_init)"
    using Cons.IH[of "dep_node p n s"] by simp
  also have "\<dots> = d_modules s \<union> (d_modules (dep_node p n DependencyAnalyzer_init)
                     \<union> d_modules (fold (dep_node p) ns DependencyAnalyzer_init))"
    using dep_node_modules[of p n s] by auto
  also have "d_modules (dep_node p n DependencyAnalyzer_init)
                     \<union> d_modules (fold (dep_node p) ns DependencyAnalyzer_init) =
             d_modules (fold (dep_node p) (n # ns) DependencyAnalyzer_init)"
    using Cons.IH[of "dep_node p n DependencyAnalyzer_init"] by simp
  finally show ?case .
qed

lemma fold_dep_node_imports:
  "d_imports (fold (dep_node p) ns s) q =
     (if q = p then d_imports s p \<union> d_modules (fold (dep_node p) ns DependencyAnalyzer_init)
      else d_imports s q)"
proof (induction ns arbitrary: s)
  case Nil
  then show ?case by (simp add: DependencyAnalyzer_init_def)
next
  case (Cons n ns)
  show ?case
    using Cons.IH[of "dep_node p n s"] dep_node_imports[of p n s]
      fold_dep_node_modules[of p ns "dep_node p n DependencyAnalyzer_init"]
    by auto
qed

text \<open>
  Claim C4 says that each file's \<^verbatim>\<open>total_modules\<close> counts the modules of all the
  files analyzed so far. In a scan of \<^verbatim>\<open>a.py\<close> (\<^verbatim>\<open>import os\<close>) and then \<^verbatim>\<open>b.py\<close>
  (\<^verbatim>\<open>import sys\<close>) the second file reports 1, not the 2 modules seen so far.
\<close>

theorem total_modules_is_per_file_in_a_scan:
  "map (map_option dependencies \<circ> metrics)
     (analyze_files read_two parse_two id [''a.py'', ''b.py'']) =
     [Some \<lparr>file_imports = {''os''}, total_modules = 1\<rparr>,
      Some \<lparr>file_imports = {''sys''}, total_modules = 1\<rparr>]
   \<and> int (card ({''os''} \<union> {''sys''} :: string set)) = 2"
  by code_simp

text \<open>
  Claim C4, amended. One \<^verbatim>\<open>DependencyAnalyzer\<close> object keeps a set of modules that
  only grows: after a call of its \<^verbatim>\<open>analyze_file\<close> the set is the set before together
  with the modules the file imports, and the \<^verbatim>\<open>total_modules\<close> returned is its size.
  \<open>analyze_file\<close> makes a new object for every file, so the \<^verbatim>\<open>total_modules\<close> of a
  file's metrics is the number of distinct modules that this file imports.
\<close>

theorem modules_shared_in_one_analyzer_fresh_per_file:
  assumes "read_file p = Content content"
  shows "d_modules (snd (dependency_analyze_file parse self p content)) =
           d_modules self
             \<union> d_modules (snd (dependency_analyze_file parse DependencyAnalyzer_init p content))
       \<and> total_modules (fst (dependency_analyze_file parse self p content)) =
           int (card (d_modules self
                  \<union> d_modules (snd (dependency_analyze_file parse DependencyAnalyzer_init p
                                        content))))
       \<and> file_imports (fst (dependency_analyze_file parse DependencyAnalyzer_init p content)) =
           d_modules (snd (dependency_analyze_file parse DependencyAnalyzer_init p content))
       \<and> map_option dependencies (metrics (analyze_file read_file parse cleandoc p)) =
           Some (fst (dependency_analyze_file parse DependencyAnalyzer_init p content))
       \<and> map_option (total_modules \<circ> dependencies)
            (metrics (analyze_file read_file parse cleandoc p)) =
           Some (int (card (file_imports
                   (fst (dependency_analyze_file parse DependencyAnalyzer_init p content)))))"
proof -
  have m: "d_modules (snd (dependency_analyze_file parse s p content)) =
             d_modules s
               \<union> d_modules (snd (dependency_analyze_file parse DependencyAnalyzer_init p content))"
    for s
    using fold_dep_node_modules[of p _ s]
    by (cases "parse content p")
       (simp_all add: dependency_analyze_file_def Let_def DependencyAnalyzer_init_def)
  have t: "total_modules (fst (dependency_analyze_file parse s p content)) =
             int (card (d_modules (snd (dependency_analyze_file parse s p content))))" for s
    by (simp add: dependency_analyze_file_def Let_def)
  have i: "file_imports (fst (dependency_analyze_file parse DependencyAnalyzer_init p content)) =
             d_modules (snd (dependency_analyze_file parse DependencyAnalyzer_init p content))"
    using fold_dep_node_imports[of p _ DependencyAnalyzer_init p]
    by (cases "parse content p")
       (simp_all add: dependency_analyze_file_def Let_def DependencyAnalyzer_init_def)
  have d: "map_option dependencies (metrics (analyze_file read_file parse cleandoc p)) =
             Some (fst (dependency_analyze_file parse DependencyAnalyzer_init p content))"
    by (simp add: analyze_file_readable(3)[where read_file = read_file, OF assms])
  have c: "map_option (total_modules \<circ> dependencies)
            (metrics (analyze_file read_file parse cleandoc p)) =
           Some (int (card (file_imports
                   (fst (dependency_analyze_file parse DependencyAnalyzer_init p content)))))"
    using t[of DependencyAnalyzer_init] i
    by (simp add: analyze_file_readable(3)[where read_file = read_file, OF assms])
  show ?thesis
    using m[of self] t[of self] i d c by simp
qed

theorem modules_shared_in_one_analyzer_fresh_per_file_witness:
  "read_two ''b.py'' = Content ''import sys''
   \<and> d_modules (snd (dependency_analyze_file parse_two
                      (snd (dependency_analyze_file parse_two DependencyAnalyzer_init
                              ''a.py'' ''import os''))
                      ''b.py'' ''import sys'')) = {''os'', ''sys''}
   \<and> total_modules (fst (dependency_analyze_file parse_two
                      (snd (dependency_analyze_file parse_two DependencyAnalyzer_init
                              ''a.py'' ''import os''))
                      ''b.py'' ''import sys'')) = 2
   \<and> map_option (total_modules \<circ> dependencies)
        (metrics (analyze_file read_two parse_two id ''b.py'')) = Some 1"
proof -
  have r: "read_two ''b.py'' = Content ''import sys''"
    by (simp add: read_two_def)
  have a: "d_modules (snd (dependency_analyze_file parse_two DependencyAnalyzer_init
                             ''a.py'' ''import os'')) = {''os''}"
    by (simp add: dependency_analyze_file_def parse_two_def import_tree_def walk.simps
        iter_child_nodes_def dep_node_def add_module_def DependencyAnalyzer_init_def)
  have b: "d_modules (snd (dependency_analyze_file parse_two DependencyAnalyzer_init
                             ''b.py'' ''import sys'')) = {''sys''}"
    by (simp add: dependency_analyze_file_def parse_two_def import_tree_def walk.simps
        iter_child_nodes_def dep_node_def add_module_def DependencyAnalyzer_init_def)
  note t = modules_shared_in_one_analyzer_fresh_per_file
             [where read_file = read_two and p = "''b.py''" and content = "''import sys''"
                and parse = parse_two and cleandoc = id
                and self = "snd (dependency_analyze_file parse_two DependencyAnalyzer_init
                                   ''a.py'' ''import os'')", OF r]
  have u: "{''os''} \<union> {''sys''} = {''os'', ''sys''}"
    by auto
  note t1 = t[THEN conjunct1]
  note t2 = t[THEN conjunct2, THEN conjunct1]
  note t3 = t[THEN conjunct2, THEN conjunct2, THEN conjunct1]
  note t5 = t[THEN conjunct2, THEN conjunct2, THEN conjunct2, THEN conjunct2]
  have m: "d_modules (snd (dependency_analyze_file parse_two
                      (snd (dependency_analyze_file parse_two DependencyAnalyzer_init
                              ''a.py'' ''import os''))
                      ''b.py'' ''import sys'')) = {''os'', ''sys''}"
    unfolding t1 a b u by (rule refl)
  have n: "total_modules (fst (dependency_analyze_file parse_two
                      (snd (dependency_analyze_file parse_two DependencyAnalyzer_init
                              ''a.py'' ''import os''))
                      ''b.py'' ''import sys'')) = 2"
    unfolding t2 a b u by simp
  have c: "map_option (total_modules \<circ> dependencies)
             (metrics (analyze_file read_two parse_two id ''b.py'')) = Some 1"
    unfolding t5 t3 b by simp
  show ?thesis
    by (intro conjI) (rule r, rule m, rule n, rule c)
qed

subsection \<open>Async function definitions\<close>

text \<open>
  Claim C10. The complexity visitor treats an \<^verbatim>\<open>async def\<close> as it treats a
  \<^verbatim>\<open>def\<close> (\<open>visit_AsyncFunctionDef\<close> calls \<open>visit_FunctionDef\<close>: function count,
  function lengths and nesting depth), so its function count is the number of nodes of
  either class; the documentation analyzer counts the nodes of class \<^verbatim>\<open>FunctionDef\<close>
  only. For a file that parses to a tree with some \<^verbatim>\<open>async def\<close> and no \<^verbatim>\<open>def\<close>, the
  complexity metrics have a function count above 0 while the documentation metrics have
  0 functions and a function coverage of 0.
\<close>

theorem async_defs_counted_by_visitor_only:
  assumes "parse content p = Parsed tree"
  shows "function_count (analyze_complexity parse p content) =
           int (length (filter (\<lambda>n. kind n = FunctionDef \<or> kind n = AsyncFunctionDef)
                          (walk [tree])))
       \<and> total_functions (analyze_documentation cleandoc parse p content) =
           int (length (filter (\<lambda>n. kind n = FunctionDef) (walk [tree])))
       \<and> ((\<forall>n \<in> set (walk [tree]). kind n \<noteq> FunctionDef)
            \<and> (\<exists>n \<in> set (walk [tree]). kind n = AsyncFunctionDef) \<longrightarrow>
              function_count (analyze_complexity parse p content) > 0
            \<and> total_functions (analyze_documentation cleandoc parse p content) = 0
            \<and> function_docstring_coverage (analyze_documentation cleandoc parse p content) = 0)
       \<and> visit (Node AsyncFunctionDef l e pre bdy post) s =
           visit (Node FunctionDef l e pre bdy post) s"
proof -
  have fc: "function_count (analyze_complexity parse p content) =
           int (length (filter (\<lambda>n. kind n = FunctionDef \<or> kind n = AsyncFunctionDef)
                          (walk [tree])))"
    using assms
    by (simp add: analyze_complexity_def Let_def visit_function_count walk_counts
        ComplexityAnalyzer_init_def)
  have tf: "total_functions (analyze_documentation cleandoc parse p content) =
           int (length (filter (\<lambda>n. kind n = FunctionDef) (walk [tree])))"
    using assms
    by (simp add: analyze_documentation_def Let_def fold_doc_node_total_functions)
  have cov: "function_docstring_coverage (analyze_documentation cleandoc parse p content) = 0"
    if "filter (\<lambda>n. kind n = FunctionDef) (walk [tree]) = []"
    using assms that
    by (simp add: analyze_documentation_def Let_def fold_doc_node_total_functions)
  have only_async: "function_count (analyze_complexity parse p content) > 0
            \<and> total_functions (analyze_documentation cleandoc parse p content) = 0
            \<and> function_docstring_coverage (analyze_documentation cleandoc parse p content) = 0"
    if none: "\<forall>n \<in> set (walk [tree]). kind n \<noteq> FunctionDef"
      and some: "\<exists>n \<in> set (walk [tree]). kind n = AsyncFunctionDef"
  proof -
    from none have e: "filter (\<lambda>n. kind n = FunctionDef) (walk [tree]) = []"
      by (simp add: filter_empty_conv)
    from some have "filter (\<lambda>n. kind n = FunctionDef \<or> kind n = AsyncFunctionDef) (walk [tree]) \<noteq> []"
      by (auto simp: filter_empty_conv)
    then have "0 < length (filter (\<lambda>n. kind n = FunctionDef \<or> kind n = AsyncFunctionDef)
                             (walk [tree]))"
      by simp
    then show ?thesis
      using fc tf cov[OF e] e by simp
  qed
  show ?thesis
    using fc tf only_async visit_async_like_def[of l e pre bdy post s] by blast
qed

theorem async_defs_counted_by_visitor_only_witness:
  "parse_async ''async def g(): pass'' ''g.py'' = Parsed async_tree
   \<and> map kind (walk [async_tree]) = [Module, AsyncFunctionDef, Other, Other]
   \<and> function_count (analyze_complexity parse_async ''g.py'' ''async def g(): pass'') = 1
   \<and> total_functions (analyze_documentation id parse_async ''g.py'' ''async def g(): pass'') = 0
   \<and> function_docstring_coverage
        (analyze_documentation id parse_async ''g.py'' ''async def g(): pass'') = 0"
proof -
  have q: "parse_async ''async def g(): pass'' ''g.py'' = Parsed async_tree"
    by (simp add: parse_async_def)
  have w: "map kind (walk [async_tree]) = [Module, AsyncFunctionDef, Other, Other]"
    by code_simp
  have a: "\<forall>n \<in> set (walk [async_tree]). kind n \<noteq> FunctionDef"
    by code_simp
  have b: "\<exists>n \<in> set (walk [async_tree]). kind n = AsyncFunctionDef"
    by code_simp
  have n: "length (filter (\<lambda>n. kind n = FunctionDef \<or> kind n = AsyncFunctionDef)
                     (walk [async_tree])) = 1"
    by code_simp
  note t = async_defs_counted_by_visitor_only
             [where parse = parse_async and content = "''async def g(): pass''"
                and p = "''g.py''" and tree = async_tree and cleandoc = id, OF q]
  show ?thesis
    using q w a b t n by simp
qed

end
